theory Spec2Isabelle
  imports Main "HOL-Library.Monad_Syntax" "HOL-Library.Sublist"
begin

section \<open>Data model of DockWidget.cpp\<close>

text \<open>
  Pointers to objects are identifiers; a nullable pointer is an \<open>option\<close>, with \<open>None\<close> for
  the null pointer. A function that can dereference a null pointer returns \<open>world option\<close>,
  with \<open>None\<close> for the undefined behaviour of that dereference.
\<close>

type_synonym wid = nat  \<comment> \<open>\<open>CDockWidget*\<close>\<close>
type_synonym aid = nat  \<comment> \<open>\<open>CDockAreaWidget*\<close>\<close>
type_synonym cid = nat  \<comment> \<open>\<open>CDockContainerWidget*\<close>\<close>
type_synonym fid = nat  \<comment> \<open>\<open>CFloatingDockContainer*\<close>\<close>
type_synonym sid = nat  \<comment> \<open>\<open>QSplitter*\<close>\<close>
type_synonym mid = nat  \<comment> \<open>\<open>CDockManager*\<close>\<close>

type_synonym QSize = "int \<times> int"

datatype ToolButtonStyle =
  ToolButtonIconOnly | ToolButtonTextOnly | ToolButtonTextBesideIcon
  | ToolButtonTextUnderIcon | ToolButtonFollowStyle

datatype QObject = DockManagerObj mid | DockWidgetObj wid | ToggleViewActionObj wid | OtherObj nat

datatype QEvent = WindowTitleChange | OtherEvent nat

datatype eToggleViewActionMode = ActionModeToggle | ActionModeShow

datatype eState = StateHidden | StateDocked | StateFloating

text \<open>
  \<open>QAction\<close> is a class of the toolkit. The fields are the ones this file reads and writes:
  the text, whether the action is checkable, the stored checked bit and the
  \<open>blockSignals\<close> flag of \<open>QObject\<close>.
\<close>

record QAction =
  actionText :: string
  checkable :: bool
  checked :: bool
  signalsBlocked :: bool

record QToolBar =
  iconSize :: QSize
  toolButtonStyle :: ToolButtonStyle

record CDockWidgetTab =
  tabText :: string
  tabHidden :: bool
  tabParent :: "QObject option"

text \<open>
  \<open>struct DockWidgetPrivate\<close> together with the \<open>QFrame\<close> state of the widget that the file
  uses (window title, size, parent, hidden flag). \<open>TabWidget\<close> and \<open>ToggleViewAction\<close> are
  created by the constructor and never reassigned, so the record holds the objects
  themselves and the null tests of \<open>event\<close> take their non-null branch.
  \<open>StyleConnections\<close> counts the connections of \<open>topLevelChanged(bool)\<close> to the slot
  \<open>setToolbarFloatingStyle(bool)\<close> made by \<open>setupToolBar\<close> and \<open>setToolBar\<close>.
\<close>

record CDockWidget =
  TabWidget :: CDockWidgetTab
  DockManager :: "mid option"
  DockArea :: "aid option"
  ToggleViewAction :: QAction
  Closed :: bool
  ToolBar :: "QToolBar option"
  ToolBarStyleDocked :: ToolButtonStyle
  ToolBarStyleFloating :: ToolButtonStyle
  ToolBarIconSizeDocked :: QSize
  ToolBarIconSizeFloating :: QSize
  IsFloatingTopLevel :: bool
  StyleConnections :: nat
  windowTitle :: string
  widgetSize :: QSize
  parentObj :: "QObject option"
  hidden :: bool

text \<open>
  Everything observable that the file does to other objects: the signals it emits and
  the calls it makes on dock areas, tabs, splitters, floating containers and tool bars,
  in the order in which they happen.
\<close>

datatype ev =
    Action_toggled wid bool
  | Action_triggered wid bool
  | Signal_closed wid
  | Signal_viewToggled wid bool
  | Signal_titleChanged wid string
  | Signal_topLevelChanged wid bool
  | Area_toggleView_call aid bool
  | Area_setCurrentDockWidget_call aid wid
  | Area_hideAreaWithNoVisibleContent_call aid
  | Area_toggleDockWidgetView_call aid wid bool
  | Area_markTitleBarMenuOutdated_call aid
  | Area_updateTitleBarVisibility_call aid
  | Tab_show_call wid
  | Tab_hide_call wid
  | Splitter_show_call sid
  | Floating_new_call fid wid
  | Floating_resize_call fid QSize
  | Floating_show_call fid
  | Floating_updateWindowTitle_call fid
  | ToolBar_setIconSize_call wid QSize
  | ToolBar_setToolButtonStyle_call wid ToolButtonStyle

text \<open>
  The heap of dock widgets, the part of the layout objects that the file queries, and the
  trace. \<open>areaSplitters a\<close> is the chain of \<open>QSplitter\<close> ancestors of area \<open>a\<close>, nearest first,
  that repeated \<open>internal::findParent<QSplitter*>\<close> walks; the parent chain of a widget is
  finite, so it is a list. \<open>splitterVisible\<close> is \<open>QWidget::isVisible()\<close> of a splitter.
\<close>

record world =
  widgets :: "wid \<Rightarrow> CDockWidget"
  areaVisible :: "aid \<Rightarrow> bool"
  areaCurrent :: "aid \<Rightarrow> wid option"
  areaMenuOutdated :: "aid \<Rightarrow> bool"
  areaContainer :: "aid \<Rightarrow> cid option"
  areaSplitters :: "aid \<Rightarrow> sid list"
  splitterVisible :: "sid \<Rightarrow> bool"
  containerFloating :: "cid \<Rightarrow> fid option"
  trace :: "ev list"

text \<open>
  The queries on layout objects whose answer is computed by code outside this file, taken
  as parameters: \<open>CDockAreaWidget::nextOpenDockWidget\<close>,
  \<open>CDockContainerWidget::topLevelDockWidget\<close>, and the objects that the constructor of
  \<open>CFloatingDockContainer\<close> creates for a widget (the floating container, its dock
  container and the dock area that receives the widget).
\<close>

record env =
  nextOpenDockWidget :: "world \<Rightarrow> aid \<Rightarrow> wid \<Rightarrow> wid option"
  topLevelDockWidget :: "world \<Rightarrow> cid \<Rightarrow> wid option"
  allocFloating :: "world \<Rightarrow> wid \<Rightarrow> fid \<times> cid \<times> aid"

definition update_widget :: "wid \<Rightarrow> (CDockWidget \<Rightarrow> CDockWidget) \<Rightarrow> world \<Rightarrow> world" where
  "update_widget w f s = s\<lparr>widgets := (widgets s)(w := f (widgets s w))\<rparr>"

definition emit :: "ev \<Rightarrow> world \<Rightarrow> world" where
  "emit e s = s\<lparr>trace := trace s @ [e]\<rparr>"

section \<open>Toolkit objects\<close>

text \<open>
  \<open>QAction::isChecked\<close>, \<open>setCheckable\<close>, \<open>setChecked\<close>, \<open>blockSignals\<close> and \<open>setText\<close> on the
  toggle view action of widget \<open>w\<close>. Only a checkable action can be checked.
  \<open>setChecked\<close> emits \<open>toggled(bool)\<close> when the checked state changes and the signals of the
  action are not blocked; it never emits \<open>triggered(bool)\<close>.
\<close>

definition Action_isChecked :: "world \<Rightarrow> wid \<Rightarrow> bool" where
  "Action_isChecked s w =
     (checkable (ToggleViewAction (widgets s w)) \<and> checked (ToggleViewAction (widgets s w)))"

definition Action_isCheckable :: "world \<Rightarrow> wid \<Rightarrow> bool" where
  "Action_isCheckable s w = checkable (ToggleViewAction (widgets s w))"

definition Action_setCheckable :: "wid \<Rightarrow> bool \<Rightarrow> world \<Rightarrow> world" where
  "Action_setCheckable w b s =
     (if checkable (ToggleViewAction (widgets s w)) = b then s
      else update_widget w
             (\<lambda>d. d\<lparr>ToggleViewAction := (ToggleViewAction d)\<lparr>checkable := b, checked := False\<rparr>\<rparr>) s)"

definition Action_blockSignals :: "wid \<Rightarrow> bool \<Rightarrow> world \<Rightarrow> world" where
  "Action_blockSignals w b s =
     update_widget w (\<lambda>d. d\<lparr>ToggleViewAction := (ToggleViewAction d)\<lparr>signalsBlocked := b\<rparr>\<rparr>) s"

definition Action_setChecked :: "wid \<Rightarrow> bool \<Rightarrow> world \<Rightarrow> world" where
  "Action_setChecked w b s =
     (let A = ToggleViewAction (widgets s w) in
      if \<not> checkable A \<or> checked A = b then s
      else
        (let s1 = update_widget w
                    (\<lambda>d. d\<lparr>ToggleViewAction := (ToggleViewAction d)\<lparr>checked := b\<rparr>\<rparr>) s
         in if signalsBlocked A then s1 else emit (Action_toggled w b) s1))"

definition Action_setText :: "wid \<Rightarrow> string \<Rightarrow> world \<Rightarrow> world" where
  "Action_setText w t s =
     update_widget w (\<lambda>d. d\<lparr>ToggleViewAction := (ToggleViewAction d)\<lparr>actionText := t\<rparr>\<rparr>) s"

text \<open>\<open>QToolBar::setIconSize\<close> and \<open>QToolBar::setToolButtonStyle\<close> on the tool bar of \<open>w\<close>.\<close>

definition ToolBar_setIconSize :: "wid \<Rightarrow> QSize \<Rightarrow> world \<Rightarrow> world" where
  "ToolBar_setIconSize w sz s =
     emit (ToolBar_setIconSize_call w sz)
       (update_widget w (\<lambda>d. d\<lparr>ToolBar := map_option (\<lambda>tb. tb\<lparr>iconSize := sz\<rparr>) (ToolBar d)\<rparr>) s)"

definition ToolBar_setToolButtonStyle :: "wid \<Rightarrow> ToolButtonStyle \<Rightarrow> world \<Rightarrow> world" where
  "ToolBar_setToolButtonStyle w st s =
     emit (ToolBar_setToolButtonStyle_call w st)
       (update_widget w
          (\<lambda>d. d\<lparr>ToolBar := map_option (\<lambda>tb. tb\<lparr>toolButtonStyle := st\<rparr>) (ToolBar d)\<rparr>) s)"

text \<open>
  \<open>QSplitter::isVisible\<close> and \<open>QSplitter::show\<close>. Showing a splitter does not change what
  \<open>isVisible\<close> answers for its ancestors, which is all that the loop of \<open>showDockWidget\<close>
  reads afterwards; the call is recorded in the trace.
\<close>

definition Splitter_isVisible :: "world \<Rightarrow> sid \<Rightarrow> bool" where
  "Splitter_isVisible s sp = splitterVisible s sp"

definition Splitter_show :: "sid \<Rightarrow> world \<Rightarrow> world" where
  "Splitter_show sp s = emit (Splitter_show_call sp) s"

definition QWidget_setParent :: "wid \<Rightarrow> QObject option \<Rightarrow> world \<Rightarrow> world" where
  "QWidget_setParent w p s = update_widget w (\<lambda>d. d\<lparr>parentObj := p\<rparr>) s"

definition QWidget_setVisible :: "wid \<Rightarrow> bool \<Rightarrow> world \<Rightarrow> world" where
  "QWidget_setVisible w b s = update_widget w (\<lambda>d. d\<lparr>hidden := \<not> b\<rparr>) s"

section \<open>Objects of the docking system outside this file\<close>

text \<open>
  Modelled from the spec: \<open>CDockWidgetTab\<close> (DockWidgetTab.h) is the tab representation
  of a widget; it can be shown, hidden, given a text and reparented.
\<close>

definition Tab_show :: "wid \<Rightarrow> world \<Rightarrow> world" where
  "Tab_show w s =
     emit (Tab_show_call w)
       (update_widget w (\<lambda>d. d\<lparr>TabWidget := (TabWidget d)\<lparr>tabHidden := False\<rparr>\<rparr>) s)"

definition Tab_hide :: "wid \<Rightarrow> world \<Rightarrow> world" where
  "Tab_hide w s =
     emit (Tab_hide_call w)
       (update_widget w (\<lambda>d. d\<lparr>TabWidget := (TabWidget d)\<lparr>tabHidden := True\<rparr>\<rparr>) s)"

definition Tab_setText :: "wid \<Rightarrow> string \<Rightarrow> world \<Rightarrow> world" where
  "Tab_setText w t s = update_widget w (\<lambda>d. d\<lparr>TabWidget := (TabWidget d)\<lparr>tabText := t\<rparr>\<rparr>) s"

definition Tab_setParent :: "wid \<Rightarrow> QObject option \<Rightarrow> world \<Rightarrow> world" where
  "Tab_setParent w p s = update_widget w (\<lambda>d. d\<lparr>TabWidget := (TabWidget d)\<lparr>tabParent := p\<rparr>\<rparr>) s"

text \<open>
  Modelled from the spec: \<open>CDockAreaWidget\<close> (DockAreaWidget.h). \<open>toggleView(true)\<close> asks the
  area to become visible, \<open>setCurrentDockWidget\<close> makes a widget the current one of the
  area, \<open>hideAreaWithNoVisibleContent\<close> makes the area hide itself,
  \<open>markTitleBarMenuOutdated\<close> invalidates the cached tab menu; \<open>toggleDockWidgetView\<close> and
  \<open>updateTitleBarVisibility\<close> are bookkeeping of the area and are recorded as calls.
\<close>

definition Area_toggleView :: "aid \<Rightarrow> bool \<Rightarrow> world \<Rightarrow> world" where
  "Area_toggleView a b s = emit (Area_toggleView_call a b) (s\<lparr>areaVisible := (areaVisible s)(a := b)\<rparr>)"

definition Area_setCurrentDockWidget :: "aid \<Rightarrow> wid \<Rightarrow> world \<Rightarrow> world" where
  "Area_setCurrentDockWidget a w s =
     emit (Area_setCurrentDockWidget_call a w) (s\<lparr>areaCurrent := (areaCurrent s)(a := Some w)\<rparr>)"

definition Area_hideAreaWithNoVisibleContent :: "aid \<Rightarrow> world \<Rightarrow> world" where
  "Area_hideAreaWithNoVisibleContent a s =
     emit (Area_hideAreaWithNoVisibleContent_call a) (s\<lparr>areaVisible := (areaVisible s)(a := False)\<rparr>)"

definition Area_toggleDockWidgetView :: "aid \<Rightarrow> wid \<Rightarrow> bool \<Rightarrow> world \<Rightarrow> world" where
  "Area_toggleDockWidgetView a w b s = emit (Area_toggleDockWidgetView_call a w b) s"

definition Area_markTitleBarMenuOutdated :: "aid \<Rightarrow> world \<Rightarrow> world" where
  "Area_markTitleBarMenuOutdated a s =
     emit (Area_markTitleBarMenuOutdated_call a)
       (s\<lparr>areaMenuOutdated := (areaMenuOutdated s)(a := True)\<rparr>)"

definition Area_updateTitleBarVisibility :: "aid \<Rightarrow> world \<Rightarrow> world" where
  "Area_updateTitleBarVisibility a s = emit (Area_updateTitleBarVisibility_call a) s"

definition Area_dockContainer :: "world \<Rightarrow> aid \<Rightarrow> cid option" where
  "Area_dockContainer s a = areaContainer s a"

text \<open>
  Modelled from the spec: \<open>CDockContainerWidget\<close> and \<open>CFloatingDockContainer\<close>
  (DockContainerWidget.h, FloatingDockContainer.h). A dock container is floating exactly
  when it is hosted by a floating container, which is then the one that \<open>floatingWidget()\<close>
  and \<open>internal::findParent<CFloatingDockContainer*>\<close> return.
\<close>

definition Container_isFloating :: "world \<Rightarrow> cid \<Rightarrow> bool" where
  "Container_isFloating s c = (containerFloating s c \<noteq> None)"

definition Container_floatingWidget :: "world \<Rightarrow> cid \<Rightarrow> fid option" where
  "Container_floatingWidget s c = containerFloating s c"

definition findParent_CFloatingDockContainer :: "world \<Rightarrow> cid \<Rightarrow> fid option" where
  "findParent_CFloatingDockContainer s c = containerFloating s c"

definition findParents_QSplitter :: "world \<Rightarrow> aid \<Rightarrow> sid list" where
  "findParents_QSplitter s a = areaSplitters s a"

definition Floating_resize :: "fid \<Rightarrow> QSize \<Rightarrow> world \<Rightarrow> world" where
  "Floating_resize f sz s = emit (Floating_resize_call f sz) s"

definition Floating_show :: "fid \<Rightarrow> world \<Rightarrow> world" where
  "Floating_show f s = emit (Floating_show_call f) s"

definition Floating_updateWindowTitle :: "fid \<Rightarrow> world \<Rightarrow> world" where
  "Floating_updateWindowTitle f s = emit (Floating_updateWindowTitle_call f) s"

section \<open>The functions of DockWidget.cpp\<close>

text \<open>\<open>CDockWidget::setToolbarFloatingStyle\<close>, the slot of \<open>topLevelChanged(bool)\<close>.\<close>

definition setToolbarFloatingStyle :: "wid \<Rightarrow> bool \<Rightarrow> world \<Rightarrow> world" where
  "setToolbarFloatingStyle w Floating s =
     (if ToolBar (widgets s w) = None then s
      else
        (let IconSize = (if Floating then ToolBarIconSizeFloating (widgets s w)
                         else ToolBarIconSizeDocked (widgets s w));
             s1 = (if Some IconSize \<noteq> map_option iconSize (ToolBar (widgets s w))
                   then ToolBar_setIconSize w IconSize s else s);
             ButtonStyle = (if Floating then ToolBarStyleFloating (widgets s1 w)
                            else ToolBarStyleDocked (widgets s1 w))
         in if Some ButtonStyle \<noteq> map_option toolButtonStyle (ToolBar (widgets s1 w))
            then ToolBar_setToolButtonStyle w ButtonStyle s1 else s1))"

text \<open>
  \<open>emit topLevelChanged(f)\<close>: the signal is recorded and every connection to
  \<open>setToolbarFloatingStyle\<close> runs the slot, as a direct connection does.
\<close>

definition emit_topLevelChanged :: "wid \<Rightarrow> bool \<Rightarrow> world \<Rightarrow> world" where
  "emit_topLevelChanged w f s =
     (setToolbarFloatingStyle w f ^^ StyleConnections (widgets s w))
       (emit (Signal_topLevelChanged w f) s)"

text \<open>\<open>CDockWidget::emitTopLevelChanged\<close>\<close>

definition emitTopLevelChanged :: "wid \<Rightarrow> bool \<Rightarrow> world \<Rightarrow> world" where
  "emitTopLevelChanged w Floating s =
     (if Floating \<noteq> IsFloatingTopLevel (widgets s w)
      then (let s1 = update_widget w (\<lambda>d. d\<lparr>IsFloatingTopLevel := Floating\<rparr>) s
            in emit_topLevelChanged w (IsFloatingTopLevel (widgets s1 w)) s1)
      else s)"

text \<open>
  \<open>CDockWidget::emitTopLevelEventForWidget\<close>: \<open>dockAreaWidget()\<close> of the top level widget is
  dereferenced without a test.
\<close>

definition emitTopLevelEventForWidget :: "wid option \<Rightarrow> bool \<Rightarrow> world \<Rightarrow> world option" where
  "emitTopLevelEventForWidget TopLevelDockWidget Floating s =
     (case TopLevelDockWidget of
        None \<Rightarrow> Some s
      | Some t \<Rightarrow>
          (case DockArea (widgets s t) of
             None \<Rightarrow> None
           | Some a \<Rightarrow> Some (emitTopLevelChanged t Floating (Area_updateTitleBarVisibility a s))))"

text \<open>\<open>CDockWidget::setToggleViewActionChecked\<close>\<close>

definition setToggleViewActionChecked :: "wid \<Rightarrow> bool \<Rightarrow> world \<Rightarrow> world" where
  "setToggleViewActionChecked w Checked s =
     Action_blockSignals w False (Action_setChecked w Checked (Action_blockSignals w True s))"

text \<open>\<open>CDockWidget::isClosed\<close>, \<open>dockAreaWidget\<close>, \<open>dockContainer\<close>\<close>

definition isClosed :: "world \<Rightarrow> wid \<Rightarrow> bool" where
  "isClosed s w = Closed (widgets s w)"

definition dockAreaWidget :: "world \<Rightarrow> wid \<Rightarrow> aid option" where
  "dockAreaWidget s w = DockArea (widgets s w)"

definition dockContainer :: "world \<Rightarrow> wid \<Rightarrow> cid option" where
  "dockContainer s w =
     (case DockArea (widgets s w) of
        Some a \<Rightarrow> Area_dockContainer s a
      | None \<Rightarrow> None)"

text \<open>\<open>CDockWidget::setDockArea\<close>\<close>

definition setDockArea :: "wid \<Rightarrow> aid option \<Rightarrow> world \<Rightarrow> world" where
  "setDockArea w DockArea' s =
     (let s1 = update_widget w (\<lambda>d. d\<lparr>DockArea := DockArea'\<rparr>) s
      in Action_setChecked w (DockArea' \<noteq> None \<and> \<not> isClosed s1 w) s1)"

text \<open>\<open>CDockWidget::setClosedState\<close>, \<open>setDockManager\<close>\<close>

definition setClosedState :: "wid \<Rightarrow> bool \<Rightarrow> world \<Rightarrow> world" where
  "setClosedState w Closed' s = update_widget w (\<lambda>d. d\<lparr>Closed := Closed'\<rparr>) s"

definition setDockManager :: "wid \<Rightarrow> mid option \<Rightarrow> world \<Rightarrow> world" where
  "setDockManager w m s = update_widget w (\<lambda>d. d\<lparr>DockManager := m\<rparr>) s"

text \<open>
  Modelled from the spec: the constructor \<open>CFloatingDockContainer(CDockWidget*)\<close>
  (FloatingDockContainer.cpp) creates a floating top-level container that contains the
  widget, so that the widget has a dock area and a dock container afterwards, as the
  comment in \<open>toggleViewInternal\<close> says. The area takes the widget through \<open>setDockArea\<close>.
\<close>

definition new_CFloatingDockContainer :: "env \<Rightarrow> wid \<Rightarrow> world \<Rightarrow> fid \<times> world" where
  "new_CFloatingDockContainer E w s =
     (case allocFloating E s w of
        (f, c, a) \<Rightarrow>
          (f, setDockArea w (Some a)
                (emit (Floating_new_call f w)
                   (s\<lparr>areaContainer := (areaContainer s)(a := Some c),
                      containerFloating := (containerFloating s)(c := Some f)\<rparr>))))"

text \<open>
  The loop of \<open>showDockWidget\<close> over the splitter ancestors:
  \<open>while (Splitter && !Splitter->isVisible())\<close>.
\<close>

fun showSplitters :: "sid list \<Rightarrow> world \<Rightarrow> world" where
  "showSplitters [] s = s"
| "showSplitters (Splitter # up) s =
     (if \<not> Splitter_isVisible s Splitter then showSplitters up (Splitter_show Splitter s) else s)"

text \<open>\<open>DockWidgetPrivate::showDockWidget\<close>\<close>

definition showDockWidget :: "env \<Rightarrow> wid \<Rightarrow> world \<Rightarrow> world option" where
  "showDockWidget E w s =
     (case DockArea (widgets s w) of
        None \<Rightarrow>
          (case new_CFloatingDockContainer E w s of
             (FloatingWidget, s1) \<Rightarrow>
               Some (Floating_show FloatingWidget
                       (Floating_resize FloatingWidget (widgetSize (widgets s1 w)) s1)))
      | Some a \<Rightarrow>
          (let s1 = Area_toggleView a True s;
               s2 = Area_setCurrentDockWidget a w s1;
               s3 = Tab_show w s2;
               s4 = showSplitters (findParents_QSplitter s3 a) s3
           in case Area_dockContainer s4 a of
                None \<Rightarrow> None
              | Some Container \<Rightarrow>
                  if Container_isFloating s4 Container
                  then (case findParent_CFloatingDockContainer s4 Container of
                          None \<Rightarrow> None
                        | Some FloatingWidget \<Rightarrow> Some (Floating_show FloatingWidget s4))
                  else Some s4))"

text \<open>\<open>DockWidgetPrivate::updateParentDockArea\<close> and \<open>hideDockWidget\<close>\<close>

definition updateParentDockArea :: "env \<Rightarrow> wid \<Rightarrow> world \<Rightarrow> world" where
  "updateParentDockArea E w s =
     (case DockArea (widgets s w) of
        None \<Rightarrow> s
      | Some a \<Rightarrow>
          (case nextOpenDockWidget E s a w of
             Some NextDockWidget \<Rightarrow> Area_setCurrentDockWidget a NextDockWidget s
           | None \<Rightarrow> Area_hideAreaWithNoVisibleContent a s))"

definition hideDockWidget :: "env \<Rightarrow> wid \<Rightarrow> world \<Rightarrow> world" where
  "hideDockWidget E w s = updateParentDockArea E w (Tab_hide w s)"

text \<open>\<open>CDockWidget::toggleViewInternal\<close>\<close>

definition toggleViewInternal :: "env \<Rightarrow> wid \<Rightarrow> bool \<Rightarrow> world \<Rightarrow> world option" where
  "toggleViewInternal E w Open s =
     (let TopLevelDockWidgetBefore =
            (case dockContainer s w of
               Some c \<Rightarrow> topLevelDockWidget E s c
             | None \<Rightarrow> None)
      in do {
        s1 \<leftarrow> (if Open then showDockWidget E w s else Some (hideDockWidget E w s));
        let s2 = update_widget w (\<lambda>d. d\<lparr>Closed := \<not> Open\<rparr>) s1;
        let s3 = Action_blockSignals w True s2;
        let s4 = Action_setChecked w Open s3;
        let s5 = Action_blockSignals w False s4;
        let s6 = (case DockArea (widgets s5 w) of
                    Some a \<Rightarrow> Area_toggleDockWidgetView a w Open s5
                  | None \<Rightarrow> s5);
        s7 \<leftarrow> (if Open \<and> TopLevelDockWidgetBefore \<noteq> None
               then emitTopLevelEventForWidget TopLevelDockWidgetBefore False s6
               else Some s6);
        let DockContainer = dockContainer s7 w;
        let TopLevelDockWidgetAfter =
              (case DockContainer of
                 Some c \<Rightarrow> topLevelDockWidget E s7 c
               | None \<Rightarrow> None);
        s8 \<leftarrow> emitTopLevelEventForWidget TopLevelDockWidgetAfter True s7;
        c \<leftarrow> DockContainer;
        let s9 = (case Container_floatingWidget s8 c of
                    Some FloatingContainer \<Rightarrow> Floating_updateWindowTitle FloatingContainer s8
                  | None \<Rightarrow> s8);
        let s10 = (if \<not> Open then emit (Signal_closed w) s9 else s9);
        Some (emit (Signal_viewToggled w Open) s10)
      })"

text \<open>
  \<open>CDockWidget::toggleView\<close>. \<open>Sender\<close> is the object returned by \<open>sender()\<close>.
\<close>

definition toggleView :: "env \<Rightarrow> wid \<Rightarrow> QObject option \<Rightarrow> bool \<Rightarrow> world \<Rightarrow> world option" where
  "toggleView E w Sender Open0 s =
     (let Open = (if Sender = Some (ToggleViewActionObj w) \<and> \<not> Action_isCheckable s w
                  then True else Open0)
      in if Closed (widgets s w) \<noteq> (\<not> Open) then toggleViewInternal E w Open s
         else if Open
              then (case DockArea (widgets s w) of
                      Some a \<Rightarrow> Some (Area_setCurrentDockWidget a w s)
                    | None \<Rightarrow> Some s)
              else Some s)"

text \<open>
  A trigger of the toggle view action by the user (\<open>QAction::activate\<close>): a checkable
  action flips its checked state, then \<open>triggered(bool)\<close> is emitted unless the signals of
  the action are blocked, and the connection made in the constructor runs \<open>toggleView\<close>
  with the action as sender.
\<close>

definition Action_trigger :: "env \<Rightarrow> wid \<Rightarrow> world \<Rightarrow> world option" where
  "Action_trigger E w s =
     (let s1 = (if Action_isCheckable s w then Action_setChecked w (\<not> Action_isChecked s w) s
                else s)
      in if signalsBlocked (ToggleViewAction (widgets s1 w)) then Some s1
         else toggleView E w (Some (ToggleViewActionObj w)) (Action_isChecked s1 w)
                (emit (Action_triggered w (Action_isChecked s1 w)) s1))"

text \<open>\<open>CDockWidget::setToggleViewActionMode\<close> (the icon is not modelled)\<close>

definition setToggleViewActionMode :: "wid \<Rightarrow> eToggleViewActionMode \<Rightarrow> world \<Rightarrow> world" where
  "setToggleViewActionMode w Mode s =
     (if Mode = ActionModeToggle then Action_setCheckable w True s
      else Action_setCheckable w False s)"

text \<open>\<open>CDockWidget::flagAsUnassigned\<close>\<close>

definition flagAsUnassigned :: "wid \<Rightarrow> world \<Rightarrow> world" where
  "flagAsUnassigned w s =
     (let s1 = update_widget w (\<lambda>d. d\<lparr>Closed := True\<rparr>) s;
          s2 = QWidget_setParent w (map_option DockManagerObj (DockManager (widgets s1 w))) s1;
          s3 = QWidget_setVisible w False s2;
          s4 = setDockArea w None s3
      in Tab_setParent w (Some (DockWidgetObj w)) s4)"

text \<open>
  \<open>CDockWidget::event\<close>. The return value, that of \<open>QFrame::event\<close>, is not modelled.
\<close>

definition event :: "wid \<Rightarrow> QEvent \<Rightarrow> world \<Rightarrow> world" where
  "event w e s =
     (if e = WindowTitleChange
      then (let title = windowTitle (widgets s w);
                s1 = Tab_setText w title s;
                s2 = Action_setText w title s1;
                s3 = (case DockArea (widgets s2 w) of
                        Some a \<Rightarrow> Area_markTitleBarMenuOutdated a s2
                      | None \<Rightarrow> s2)
            in emit (Signal_titleChanged w title) s3)
      else s)"

text \<open>
  \<open>QWidget::setWindowTitle\<close>: a title that differs from the current one is stored and a
  \<open>WindowTitleChange\<close> event is sent to the widget.
\<close>

definition setWindowTitle :: "wid \<Rightarrow> string \<Rightarrow> world \<Rightarrow> world" where
  "setWindowTitle w t s =
     (if windowTitle (widgets s w) = t then s
      else event w WindowTitleChange (update_widget w (\<lambda>d. d\<lparr>windowTitle := t\<rparr>) s))"

text \<open>
  \<open>DockWidgetPrivate::setupToolBar\<close> and \<open>CDockWidget::createDefaultToolBar\<close>. The new
  \<open>QToolBar\<close> starts with the toolkit's defaults, here an icon size of 24 x 24 and
  \<open>ToolButtonIconOnly\<close>; its name, its place in the layout and its own toggle view action
  are not modelled.
\<close>

definition setupToolBar :: "wid \<Rightarrow> world \<Rightarrow> world" where
  "setupToolBar w s =
     (let s1 = update_widget w
                 (\<lambda>d. d\<lparr>ToolBar := Some \<lparr>iconSize = (24, 24), toolButtonStyle = ToolButtonIconOnly\<rparr>\<rparr>) s;
          s2 = ToolBar_setIconSize w (16, 16) s1
      in update_widget w (\<lambda>d. d\<lparr>StyleConnections := Suc (StyleConnections d)\<rparr>) s2)"

definition createDefaultToolBar :: "wid \<Rightarrow> world \<Rightarrow> world" where
  "createDefaultToolBar w s = (if ToolBar (widgets s w) = None then setupToolBar w s else s)"

text \<open>
  \<open>CDockWidget::isInFloatingContainer\<close> and \<open>isFloating\<close>; in \<open>isFloating\<close> the dock
  container is non-null where it is dereferenced.
\<close>

definition isInFloatingContainer :: "world \<Rightarrow> wid \<Rightarrow> bool" where
  "isInFloatingContainer s w =
     (case dockContainer s w of
        None \<Rightarrow> False
      | Some Container \<Rightarrow> if \<not> Container_isFloating s Container then False else True)"

definition isFloating :: "env \<Rightarrow> world \<Rightarrow> wid \<Rightarrow> bool" where
  "isFloating E s w =
     (if \<not> isInFloatingContainer s w then False
      else (case dockContainer s w of
              Some c \<Rightarrow> topLevelDockWidget E s c = Some w
            | None \<Rightarrow> False))"

text \<open>
  \<open>CDockWidget::setToolBar\<close>, \<open>setToolBarStyle\<close>, \<open>toolBarStyle\<close>, \<open>setToolBarIconSize\<close> and
  \<open>toolBarIconSize\<close>. \<open>setToolBar\<close> replaces the tool bar object and connects
  \<open>topLevelChanged\<close> to the slot once more.
\<close>

definition setToolBar :: "env \<Rightarrow> wid \<Rightarrow> QToolBar \<Rightarrow> world \<Rightarrow> world" where
  "setToolBar E w ToolBar' s =
     (let s1 = update_widget w
                 (\<lambda>d. d\<lparr>ToolBar := Some ToolBar', StyleConnections := Suc (StyleConnections d)\<rparr>) s
      in setToolbarFloatingStyle w (isFloating E s1 w) s1)"

definition setToolBarStyle :: "env \<Rightarrow> wid \<Rightarrow> ToolButtonStyle \<Rightarrow> eState \<Rightarrow> world \<Rightarrow> world" where
  "setToolBarStyle E w Style State s =
     (let s1 = (if State = StateFloating
                then update_widget w (\<lambda>d. d\<lparr>ToolBarStyleFloating := Style\<rparr>) s
                else update_widget w (\<lambda>d. d\<lparr>ToolBarStyleDocked := Style\<rparr>) s)
      in setToolbarFloatingStyle w (isFloating E s1 w) s1)"

definition toolBarStyle :: "world \<Rightarrow> wid \<Rightarrow> eState \<Rightarrow> ToolButtonStyle" where
  "toolBarStyle s w State =
     (if State = StateFloating then ToolBarStyleFloating (widgets s w)
      else ToolBarStyleDocked (widgets s w))"

definition setToolBarIconSize :: "env \<Rightarrow> wid \<Rightarrow> QSize \<Rightarrow> eState \<Rightarrow> world \<Rightarrow> world" where
  "setToolBarIconSize E w IconSize State s =
     (let s1 = (if State = StateFloating
                then update_widget w (\<lambda>d. d\<lparr>ToolBarIconSizeFloating := IconSize\<rparr>) s
                else update_widget w (\<lambda>d. d\<lparr>ToolBarIconSizeDocked := IconSize\<rparr>) s)
      in setToolbarFloatingStyle w (isFloating E s1 w) s1)"

definition toolBarIconSize :: "world \<Rightarrow> wid \<Rightarrow> eState \<Rightarrow> QSize" where
  "toolBarIconSize s w State =
     (if State = StateFloating then ToolBarIconSizeFloating (widgets s w)
      else ToolBarIconSizeDocked (widgets s w))"

text \<open>
  The state of a widget when the constructor \<open>CDockWidget(title, parent)\<close> returns, with
  the member initialisers of \<open>DockWidgetPrivate\<close>: the action is created with the title
  as text and made checkable, no dock area, not closed, no tool bar. The tab is a child of
  the widget; that it shows the title, and the size and hidden flag of a widget that was
  never shown, are the defaults taken here for the objects made outside this file.
\<close>

definition CDockWidget_new :: "wid \<Rightarrow> string \<Rightarrow> QObject option \<Rightarrow> CDockWidget" where
  "CDockWidget_new w title parent =
     \<lparr>TabWidget = \<lparr>tabText = title, tabHidden = False, tabParent = Some (DockWidgetObj w)\<rparr>,
      DockManager = None,
      DockArea = None,
      ToggleViewAction =
        \<lparr>actionText = title, checkable = True, checked = False, signalsBlocked = False\<rparr>,
      Closed = False,
      ToolBar = None,
      ToolBarStyleDocked = ToolButtonIconOnly,
      ToolBarStyleFloating = ToolButtonTextUnderIcon,
      ToolBarIconSizeDocked = (16, 16),
      ToolBarIconSizeFloating = (24, 24),
      IsFloatingTopLevel = False,
      StyleConnections = 0,
      windowTitle = title,
      widgetSize = (640, 480),
      parentObj = parent,
      hidden = True\<rparr>"

section \<open>Notions used by the statements\<close>

text \<open>The events that a step from \<open>s\<close> to \<open>s'\<close> appended to the trace.\<close>

definition new_events :: "world \<Rightarrow> world \<Rightarrow> ev list" where
  "new_events s s' = drop (length (trace s)) (trace s')"

fun is_viewToggled :: "ev \<Rightarrow> bool" where
  "is_viewToggled (Signal_viewToggled w b) = True"
| "is_viewToggled e = False"

fun is_action_signal :: "ev \<Rightarrow> bool" where
  "is_action_signal (Action_toggled w b) = True"
| "is_action_signal (Action_triggered w b) = True"
| "is_action_signal e = False"

fun is_triggered :: "ev \<Rightarrow> bool" where
  "is_triggered (Action_triggered w b) = True"
| "is_triggered e = False"

fun is_titleChanged :: "ev \<Rightarrow> bool" where
  "is_titleChanged (Signal_titleChanged w t) = True"
| "is_titleChanged e = False"

fun is_topLevelChanged :: "ev \<Rightarrow> bool" where
  "is_topLevelChanged (Signal_topLevelChanged w b) = True"
| "is_topLevelChanged e = False"

fun is_toolbar_call :: "ev \<Rightarrow> bool" where
  "is_toolbar_call (ToolBar_setIconSize_call w sz) = True"
| "is_toolbar_call (ToolBar_setToolButtonStyle_call w st) = True"
| "is_toolbar_call e = False"

fun is_setCurrentDockWidget :: "ev \<Rightarrow> bool" where
  "is_setCurrentDockWidget (Area_setCurrentDockWidget_call a w) = True"
| "is_setCurrentDockWidget e = False"

text \<open>
  The events of the top-level bookkeeping at the end of a transition: the
  \<open>topLevelChanged\<close> signal, the tool bar calls of its slot, and the title bar update of
  the area.
\<close>

fun quiet_ev :: "ev \<Rightarrow> bool" where
  "quiet_ev (Signal_topLevelChanged w b) = True"
| "quiet_ev (ToolBar_setIconSize_call w sz) = True"
| "quiet_ev (ToolBar_setToolButtonStyle_call w st) = True"
| "quiet_ev (Area_updateTitleBarVisibility_call a) = True"
| "quiet_ev e = False"

text \<open>A widget without its tool bar object and its cached top-level flag.\<close>

definition core :: "CDockWidget \<Rightarrow> CDockWidget" where
  "core d = d\<lparr>ToolBar := None, IsFloatingTopLevel := False\<rparr>"

text \<open>
  A step that changes nothing but tool bars and cached top-level flags, and appends only
  events of the top-level bookkeeping.
\<close>

definition quiet_step :: "world \<Rightarrow> world \<Rightarrow> bool" where
  "quiet_step s s' \<longleftrightarrow>
     areaVisible s' = areaVisible s \<and> areaCurrent s' = areaCurrent s \<and>
     areaMenuOutdated s' = areaMenuOutdated s \<and> areaContainer s' = areaContainer s \<and>
     areaSplitters s' = areaSplitters s \<and> splitterVisible s' = splitterVisible s \<and>
     containerFloating s' = containerFloating s \<and>
     (\<forall>v. core (widgets s' v) = core (widgets s v)) \<and>
     (\<exists>d. trace s' = trace s @ d \<and> list_all quiet_ev d)"

text \<open>
  Well-formedness of the layout as far as this file relies on it: the widget that a
  container reports as its top level widget is assigned to a dock area.
\<close>

definition topLevel_assigned :: "env \<Rightarrow> bool" where
  "topLevel_assigned E \<longleftrightarrow>
     (\<forall>s c t. topLevelDockWidget E s c = Some t \<longrightarrow> DockArea (widgets s t) \<noteq> None)"

fun is_floating_call :: "ev \<Rightarrow> bool" where
  "is_floating_call (Floating_new_call f w) = True"
| "is_floating_call (Floating_resize_call f sz) = True"
| "is_floating_call (Floating_show_call f) = True"
| "is_floating_call (Floating_updateWindowTitle_call f) = True"
| "is_floating_call e = False"

text \<open>
  Two stretches of \<open>toggleViewInternal\<close>, named to state lemmas about them: the update of
  the closed flag, the synchronisation of the toggle view action and the call of
  \<open>toggleDockWidgetView\<close>; and the end of the function from the lookup of the floating
  widget of container \<open>c\<close>.
\<close>

definition toggle_switch :: "wid \<Rightarrow> bool \<Rightarrow> world \<Rightarrow> world" where
  "toggle_switch w Open s1 =
     (let s2 = update_widget w (\<lambda>d. d\<lparr>Closed := \<not> Open\<rparr>) s1;
          s3 = Action_blockSignals w True s2;
          s4 = Action_setChecked w Open s3;
          s5 = Action_blockSignals w False s4
      in case DockArea (widgets s5 w) of
           Some a \<Rightarrow> Area_toggleDockWidgetView a w Open s5
         | None \<Rightarrow> s5)"

definition toggle_finish :: "wid \<Rightarrow> bool \<Rightarrow> cid \<Rightarrow> world \<Rightarrow> world" where
  "toggle_finish w Open c s8 =
     (let s9 = (case Container_floatingWidget s8 c of
                  Some FloatingContainer \<Rightarrow> Floating_updateWindowTitle FloatingContainer s8
                | None \<Rightarrow> s8);
          s10 = (if \<not> Open then emit (Signal_closed w) s9 else s9)
      in emit (Signal_viewToggled w Open) s10)"

text \<open>A step that changes nothing but tool bar objects and appends only tool bar calls.\<close>

definition toolbar_step :: "world \<Rightarrow> world \<Rightarrow> bool" where
  "toolbar_step s s' \<longleftrightarrow>
     areaVisible s' = areaVisible s \<and> areaCurrent s' = areaCurrent s \<and>
     areaMenuOutdated s' = areaMenuOutdated s \<and> areaContainer s' = areaContainer s \<and>
     areaSplitters s' = areaSplitters s \<and> splitterVisible s' = splitterVisible s \<and>
     containerFloating s' = containerFloating s \<and>
     (\<forall>v. (widgets s' v)\<lparr>ToolBar := None\<rparr> = (widgets s v)\<lparr>ToolBar := None\<rparr>) \<and>
     (\<exists>d. trace s' = trace s @ d \<and> list_all is_toolbar_call d)"

text \<open>
  The notifications of a dock widget (\<open>closed\<close>, \<open>viewToggled\<close>, \<open>titleChanged\<close>,
  \<open>topLevelChanged\<close>) and the \<open>triggered\<close> signal of its toggle view action.
\<close>

fun is_notification :: "ev \<Rightarrow> bool" where
  "is_notification (Signal_closed w) = True"
| "is_notification (Signal_viewToggled w b) = True"
| "is_notification (Signal_titleChanged w t) = True"
| "is_notification (Signal_topLevelChanged w b) = True"
| "is_notification (Action_triggered w b) = True"
| "is_notification e = False"

text \<open>
  The state that a call of \<open>toggleView\<close> requests: open when the sender is the toggle view
  action and the action is not checkable, the argument otherwise.
\<close>

definition requested :: "world \<Rightarrow> wid \<Rightarrow> QObject option \<Rightarrow> bool \<Rightarrow> bool" where
  "requested s w Sender Open0 =
     (if Sender = Some (ToggleViewActionObj w) \<and> \<not> Action_isCheckable s w then True else Open0)"

fun is_hideArea :: "ev \<Rightarrow> bool" where
  "is_hideArea (Area_hideAreaWithNoVisibleContent_call a) = True"
| "is_hideArea e = False"

section \<open>Concrete states\<close>

text \<open>
  An environment in which no area has a next open widget and no container a top level
  widget, and whose floating containers are container 5 in floating widget 7 with area 3.
\<close>

definition env0 :: env where
  "env0 = \<lparr>nextOpenDockWidget = (\<lambda>s a w. None),
           topLevelDockWidget = (\<lambda>s c. None),
           allocFloating = (\<lambda>s w. (7, 5, 3))\<rparr>"

text \<open>
  An environment in which widget 4 is the next open widget of every area and the top
  level widget of every container as long as it is assigned to an area.
\<close>

definition env1 :: env where
  "env1 = \<lparr>nextOpenDockWidget = (\<lambda>s a w. Some 4),
           topLevelDockWidget = (\<lambda>s c. if DockArea (widgets s 4) = None then None else Some 4),
           allocFloating = (\<lambda>s w. (7, 5, 3))\<rparr>"

text \<open>Every widget as its constructor leaves it; no layout objects; an empty trace.\<close>

definition fresh :: world where
  "fresh = \<lparr>widgets = (\<lambda>v. CDockWidget_new v ''Logs'' None),
            areaVisible = (\<lambda>a. False),
            areaCurrent = (\<lambda>a. None),
            areaMenuOutdated = (\<lambda>a. False),
            areaContainer = (\<lambda>a. None),
            areaSplitters = (\<lambda>a. []),
            splitterVisible = (\<lambda>sp. True),
            containerFloating = (\<lambda>c. None),
            trace = []\<rparr>"

text \<open>
  Area 3 sits in container 5 of the main window under the splitters 11 (hidden) and 12
  (visible); widgets 2 and 4 are assigned to it and open.
\<close>

definition docked :: world where
  "docked =
     setDockArea 4 (Some 3) (setDockArea 2 (Some 3)
       (fresh\<lparr>areaVisible := (\<lambda>a. a = 3),
              areaCurrent := (\<lambda>a. if a = 3 then Some 2 else None),
              areaContainer := (\<lambda>a. if a = 3 then Some 5 else None),
              areaSplitters := (\<lambda>a. if a = 3 then [11, 12] else []),
              splitterVisible := (\<lambda>sp. sp \<noteq> 11)\<rparr>))"

text \<open>Widget 2 released by its area, with dock manager 9.\<close>

definition unassigned :: world where
  "unassigned = flagAsUnassigned 2 (setDockManager 2 (Some 9) fresh)"

text \<open>Widget 2 after \<open>setToggleViewActionMode(ActionModeShow)\<close>: open, unassigned.\<close>

definition showmode :: world where
  "showmode = setToggleViewActionMode 2 ActionModeShow fresh"

text \<open>Widget 2 in show mode, released by its area: closed and unassigned.\<close>

definition showmode_unassigned :: world where
  "showmode_unassigned = flagAsUnassigned 2 showmode"

section \<open>Basic facts about the state\<close>

lemma update_widget_simps [simp]:
  "widgets (update_widget w f s) = (widgets s)(w := f (widgets s w))"
  "trace (update_widget w f s) = trace s"
  "areaVisible (update_widget w f s) = areaVisible s"
  "areaCurrent (update_widget w f s) = areaCurrent s"
  "areaMenuOutdated (update_widget w f s) = areaMenuOutdated s"
  "areaContainer (update_widget w f s) = areaContainer s"
  "areaSplitters (update_widget w f s) = areaSplitters s"
  "splitterVisible (update_widget w f s) = splitterVisible s"
  "containerFloating (update_widget w f s) = containerFloating s"
  by (simp_all add: update_widget_def)

lemma emit_simps [simp]:
  "widgets (emit e s) = widgets s"
  "trace (emit e s) = trace s @ [e]"
  "areaVisible (emit e s) = areaVisible s"
  "areaCurrent (emit e s) = areaCurrent s"
  "areaMenuOutdated (emit e s) = areaMenuOutdated s"
  "areaContainer (emit e s) = areaContainer s"
  "areaSplitters (emit e s) = areaSplitters s"
  "splitterVisible (emit e s) = splitterVisible s"
  "containerFloating (emit e s) = containerFloating s"
  by (simp_all add: emit_def)

lemmas action_defs = Action_isChecked_def Action_isCheckable_def Action_setCheckable_def
  Action_blockSignals_def Action_setChecked_def Action_setText_def

lemma core_fields:
  assumes "core d' = core d"
  shows "TabWidget d' = TabWidget d" "DockManager d' = DockManager d" "DockArea d' = DockArea d"
    "ToggleViewAction d' = ToggleViewAction d" "Closed d' = Closed d"
    "ToolBarStyleDocked d' = ToolBarStyleDocked d" "ToolBarStyleFloating d' = ToolBarStyleFloating d"
    "ToolBarIconSizeDocked d' = ToolBarIconSizeDocked d"
    "ToolBarIconSizeFloating d' = ToolBarIconSizeFloating d"
    "StyleConnections d' = StyleConnections d" "windowTitle d' = windowTitle d"
    "widgetSize d' = widgetSize d" "parentObj d' = parentObj d" "hidden d' = hidden d"
proof -
  have "TabWidget (core d') = TabWidget (core d)" using assms by simp
  then show "TabWidget d' = TabWidget d" by (simp add: core_def)
  have "DockManager (core d') = DockManager (core d)" using assms by simp
  then show "DockManager d' = DockManager d" by (simp add: core_def)
  have "DockArea (core d') = DockArea (core d)" using assms by simp
  then show "DockArea d' = DockArea d" by (simp add: core_def)
  have "ToggleViewAction (core d') = ToggleViewAction (core d)" using assms by simp
  then show "ToggleViewAction d' = ToggleViewAction d" by (simp add: core_def)
  have "Closed (core d') = Closed (core d)" using assms by simp
  then show "Closed d' = Closed d" by (simp add: core_def)
  have "ToolBarStyleDocked (core d') = ToolBarStyleDocked (core d)" using assms by simp
  then show "ToolBarStyleDocked d' = ToolBarStyleDocked d" by (simp add: core_def)
  have "ToolBarStyleFloating (core d') = ToolBarStyleFloating (core d)" using assms by simp
  then show "ToolBarStyleFloating d' = ToolBarStyleFloating d" by (simp add: core_def)
  have "ToolBarIconSizeDocked (core d') = ToolBarIconSizeDocked (core d)" using assms by simp
  then show "ToolBarIconSizeDocked d' = ToolBarIconSizeDocked d" by (simp add: core_def)
  have "ToolBarIconSizeFloating (core d') = ToolBarIconSizeFloating (core d)" using assms by simp
  then show "ToolBarIconSizeFloating d' = ToolBarIconSizeFloating d" by (simp add: core_def)
  have "StyleConnections (core d') = StyleConnections (core d)" using assms by simp
  then show "StyleConnections d' = StyleConnections d" by (simp add: core_def)
  have "windowTitle (core d') = windowTitle (core d)" using assms by simp
  then show "windowTitle d' = windowTitle d" by (simp add: core_def)
  have "widgetSize (core d') = widgetSize (core d)" using assms by simp
  then show "widgetSize d' = widgetSize d" by (simp add: core_def)
  have "parentObj (core d') = parentObj (core d)" using assms by simp
  then show "parentObj d' = parentObj d" by (simp add: core_def)
  have "hidden (core d') = hidden (core d)" using assms by simp
  then show "hidden d' = hidden d" by (simp add: core_def)
qed

lemma quiet_step_refl: "quiet_step s s"
  by (simp add: quiet_step_def)

lemma quiet_step_trans: "quiet_step s t \<Longrightarrow> quiet_step t u \<Longrightarrow> quiet_step s u"
  unfolding quiet_step_def
  by (elim conjE exE) (auto intro!: exI)

lemma quiet_ToolBar_setIconSize: "quiet_step s (ToolBar_setIconSize w sz s)"
  by (simp add: quiet_step_def ToolBar_setIconSize_def core_def)

lemma quiet_ToolBar_setToolButtonStyle: "quiet_step s (ToolBar_setToolButtonStyle w st s)"
  by (simp add: quiet_step_def ToolBar_setToolButtonStyle_def core_def)

lemma quiet_setToolbarFloatingStyle: "quiet_step s (setToolbarFloatingStyle w f s)"
  unfolding setToolbarFloatingStyle_def Let_def
  by (auto intro: quiet_step_refl quiet_ToolBar_setIconSize quiet_ToolBar_setToolButtonStyle
        quiet_step_trans [OF quiet_ToolBar_setIconSize quiet_ToolBar_setToolButtonStyle])

lemma quiet_funpow: "quiet_step s ((setToolbarFloatingStyle w f ^^ n) s)"
proof (induction n)
  case 0
  show ?case by (simp add: quiet_step_refl)
next
  case (Suc n)
  show ?case
    using quiet_step_trans [OF Suc quiet_setToolbarFloatingStyle] by simp
qed

lemma quiet_emit_topLevelChanged: "quiet_step s (emit_topLevelChanged w f s)"
proof -
  have "quiet_step s (emit (Signal_topLevelChanged w f) s)"
    by (simp add: quiet_step_def)
  then show ?thesis
    unfolding emit_topLevelChanged_def by (rule quiet_step_trans) (rule quiet_funpow)
qed

lemma quiet_emitTopLevelChanged: "quiet_step s (emitTopLevelChanged w f s)"
proof (cases "f \<noteq> IsFloatingTopLevel (widgets s w)")
  case True
  have "quiet_step s (update_widget w (\<lambda>d. d\<lparr>IsFloatingTopLevel := f\<rparr>) s)"
    by (simp add: quiet_step_def core_def)
  then show ?thesis
    using True unfolding emitTopLevelChanged_def Let_def
    by (auto intro: quiet_step_trans quiet_emit_topLevelChanged)
next
  case False
  then show ?thesis by (simp add: emitTopLevelChanged_def quiet_step_refl)
qed

lemma quiet_emitTopLevelEventForWidget:
  "emitTopLevelEventForWidget t f s = Some s' \<Longrightarrow> quiet_step s s'"
proof -
  assume a: "emitTopLevelEventForWidget t f s = Some s'"
  have u: "quiet_step s (Area_updateTitleBarVisibility a s)" for a
    by (simp add: quiet_step_def Area_updateTitleBarVisibility_def)
  show ?thesis
    using a unfolding emitTopLevelEventForWidget_def
    by (auto split: option.splits intro: quiet_step_refl quiet_step_trans [OF u quiet_emitTopLevelChanged])
qed

lemma quiet_dockContainer: "quiet_step s s' \<Longrightarrow> dockContainer s' w = dockContainer s w"
proof -
  assume q: "quiet_step s s'"
  then have "core (widgets s' w) = core (widgets s w)" by (simp add: quiet_step_def)
  then have "DockArea (widgets s' w) = DockArea (widgets s w)" by (rule core_fields(3))
  moreover have "areaContainer s' = areaContainer s" using q by (simp add: quiet_step_def)
  ultimately show ?thesis by (simp add: dockContainer_def Area_dockContainer_def split: option.splits)
qed

lemma quiet_core: "quiet_step s s' \<Longrightarrow> core (widgets s' v) = core (widgets s v)"
  by (simp add: quiet_step_def)

section \<open>Showing, hiding and the two stretches of a transition\<close>

lemma showSplitters_eq:
  "showSplitters chain s =
     s\<lparr>trace := trace s @ map Splitter_show_call (takeWhile (\<lambda>sp. \<not> splitterVisible s sp) chain)\<rparr>"
proof (induction chain arbitrary: s)
  case Nil
  show ?case by simp
next
  case (Cons sp up)
  show ?case
    by (simp add: Cons.IH Splitter_isVisible_def Splitter_show_def emit_def)
qed

lemma takeWhile_hidden_eq_filter:
  "sorted_wrt (\<lambda>x y. P x \<longrightarrow> P y) chain \<Longrightarrow>
     takeWhile (\<lambda>sp. \<not> P sp) chain = filter (\<lambda>sp. \<not> P sp) chain"
proof (induction chain)
  case Nil
  show ?case by simp
next
  case (Cons sp up)
  show ?case
  proof (cases "P sp")
    case True
    with Cons.prems have "\<forall>y\<in>set up. P y" by simp
    then have "filter (\<lambda>sp. \<not> P sp) up = []" by (simp add: filter_empty_conv)
    with True show ?thesis by simp
  next
    case False
    with Cons show ?thesis by simp
  qed
qed

lemma showDockWidget_assigned:
  assumes "DockArea (widgets s w) = Some a" and "areaContainer s a = Some c"
  shows "showDockWidget E w s =
     Some (s\<lparr>widgets := (widgets s)(w := (widgets s w)\<lparr>TabWidget := (TabWidget (widgets s w))\<lparr>tabHidden := False\<rparr>\<rparr>),
             areaVisible := (areaVisible s)(a := True),
             areaCurrent := (areaCurrent s)(a := Some w),
             trace := trace s @ [Area_toggleView_call a True, Area_setCurrentDockWidget_call a w, Tab_show_call w]
                      @ map Splitter_show_call (takeWhile (\<lambda>sp. \<not> splitterVisible s sp) (areaSplitters s a))
                      @ (case containerFloating s c of Some f \<Rightarrow> [Floating_show_call f] | None \<Rightarrow> [])\<rparr>)"
  using assms
  by (simp add: showDockWidget_def Let_def showSplitters_eq Area_toggleView_def
      Area_setCurrentDockWidget_def Tab_show_def findParents_QSplitter_def Area_dockContainer_def
      Container_isFloating_def findParent_CFloatingDockContainer_def Floating_show_def
      emit_def update_widget_def split: option.splits)

lemma showDockWidget_unassigned:
  assumes "DockArea (widgets s w) = None" and "allocFloating E s w = (f, c, a)"
  shows "showDockWidget E w s =
     Some (Floating_show f (Floating_resize f (widgetSize (widgets s w))
             (setDockArea w (Some a) (emit (Floating_new_call f w)
                (s\<lparr>areaContainer := (areaContainer s)(a := Some c),
                   containerFloating := (containerFloating s)(c := Some f)\<rparr>)))))"
  using assms
  by (simp add: showDockWidget_def new_CFloatingDockContainer_def setDockArea_def Let_def
      Action_setChecked_def isClosed_def)

lemma hideDockWidget_assigned:
  assumes "DockArea (widgets s w) = Some a"
  shows "hideDockWidget E w s =
     (case nextOpenDockWidget E (Tab_hide w s) a w of
        Some n \<Rightarrow> Area_setCurrentDockWidget a n (Tab_hide w s)
      | None \<Rightarrow> Area_hideAreaWithNoVisibleContent a (Tab_hide w s))"
proof -
  have "DockArea (widgets (Tab_hide w s) w) = Some a"
    using assms by (simp add: Tab_hide_def)
  then show ?thesis by (simp add: hideDockWidget_def updateParentDockArea_def)
qed

lemma toggle_switch_widgets:
  "widgets (toggle_switch w Open s1) =
     (widgets s1)(w := (widgets s1 w)
        \<lparr>ToggleViewAction := (ToggleViewAction (widgets s1 w))
           \<lparr>checked := (if checkable (ToggleViewAction (widgets s1 w)) then Open
                        else checked (ToggleViewAction (widgets s1 w))),
            signalsBlocked := False\<rparr>,
         Closed := \<not> Open\<rparr>)"
  by (auto simp add: toggle_switch_def Let_def action_defs Area_toggleDockWidgetView_def
      update_widget_def fun_eq_iff split: option.splits)

lemma toggle_switch_trace:
  "trace (toggle_switch w Open s1) =
     trace s1 @ (case DockArea (widgets s1 w) of Some a \<Rightarrow> [Area_toggleDockWidgetView_call a w Open] | None \<Rightarrow> [])"
  by (simp add: toggle_switch_def Let_def action_defs Area_toggleDockWidgetView_def
      split: option.splits)

lemma toggle_switch_layout:
  "areaVisible (toggle_switch w Open s1) = areaVisible s1"
  "areaCurrent (toggle_switch w Open s1) = areaCurrent s1"
  "areaMenuOutdated (toggle_switch w Open s1) = areaMenuOutdated s1"
  "areaContainer (toggle_switch w Open s1) = areaContainer s1"
  "areaSplitters (toggle_switch w Open s1) = areaSplitters s1"
  "splitterVisible (toggle_switch w Open s1) = splitterVisible s1"
  "containerFloating (toggle_switch w Open s1) = containerFloating s1"
  by (simp_all add: toggle_switch_def Let_def action_defs Area_toggleDockWidgetView_def
      split: option.splits)

lemma toggle_finish_simps:
  "widgets (toggle_finish w Open c s8) = widgets s8"
  "areaVisible (toggle_finish w Open c s8) = areaVisible s8"
  "areaCurrent (toggle_finish w Open c s8) = areaCurrent s8"
  "areaMenuOutdated (toggle_finish w Open c s8) = areaMenuOutdated s8"
  "areaContainer (toggle_finish w Open c s8) = areaContainer s8"
  "containerFloating (toggle_finish w Open c s8) = containerFloating s8"
  "trace (toggle_finish w Open c s8) =
     trace s8 @ (case containerFloating s8 c of Some f \<Rightarrow> [Floating_updateWindowTitle_call f] | None \<Rightarrow> [])
       @ (if Open then [] else [Signal_closed w]) @ [Signal_viewToggled w Open]"
  by (simp_all add: toggle_finish_def Let_def Container_floatingWidget_def
      Floating_updateWindowTitle_def split: option.splits)

section \<open>Tool bar steps\<close>

lemma toolbar_step_refl: "toolbar_step s s"
  by (simp add: toolbar_step_def)

lemma toolbar_step_trans: "toolbar_step s t \<Longrightarrow> toolbar_step t u \<Longrightarrow> toolbar_step s u"
  unfolding toolbar_step_def
  by (elim conjE exE) (auto intro!: exI)

lemma toolbar_ToolBar_setIconSize: "toolbar_step s (ToolBar_setIconSize w sz s)"
  by (simp add: toolbar_step_def ToolBar_setIconSize_def)

lemma toolbar_ToolBar_setToolButtonStyle: "toolbar_step s (ToolBar_setToolButtonStyle w st s)"
  by (simp add: toolbar_step_def ToolBar_setToolButtonStyle_def)

lemma toolbar_setToolbarFloatingStyle: "toolbar_step s (setToolbarFloatingStyle w f s)"
  unfolding setToolbarFloatingStyle_def Let_def
  by (auto intro: toolbar_step_refl toolbar_ToolBar_setIconSize toolbar_ToolBar_setToolButtonStyle
        toolbar_step_trans [OF toolbar_ToolBar_setIconSize toolbar_ToolBar_setToolButtonStyle])

lemma toolbar_funpow: "toolbar_step s ((setToolbarFloatingStyle w f ^^ n) s)"
proof (induction n)
  case 0
  show ?case by (simp add: toolbar_step_refl)
next
  case (Suc n)
  show ?case
    using toolbar_step_trans [OF Suc toolbar_setToolbarFloatingStyle] by simp
qed

lemma toolbar_step_IsFloatingTopLevel:
  assumes "toolbar_step s s'"
  shows "IsFloatingTopLevel (widgets s' v) = IsFloatingTopLevel (widgets s v)"
proof -
  have "(widgets s' v)\<lparr>ToolBar := None\<rparr> = (widgets s v)\<lparr>ToolBar := None\<rparr>"
    using assms by (simp add: toolbar_step_def)
  then have "IsFloatingTopLevel ((widgets s' v)\<lparr>ToolBar := None\<rparr>) =
      IsFloatingTopLevel ((widgets s v)\<lparr>ToolBar := None\<rparr>)" by simp
  then show ?thesis by simp
qed

lemma new_events_append [simp]: "trace s' = trace s @ d \<Longrightarrow> new_events s s' = d"
  by (simp add: new_events_def)

section \<open>The top level signal\<close>

lemma emit_topLevelChanged_flag:
  "IsFloatingTopLevel (widgets (emit_topLevelChanged w f s) v) = IsFloatingTopLevel (widgets s v)"
  unfolding emit_topLevelChanged_def
  using toolbar_step_IsFloatingTopLevel [OF toolbar_funpow] by simp

lemma emit_topLevelChanged_events:
  "filter is_topLevelChanged (new_events s (emit_topLevelChanged w f s)) = [Signal_topLevelChanged w f]"
proof -
  define s1 where "s1 = emit (Signal_topLevelChanged w f) s"
  define s2 where "s2 = (setToolbarFloatingStyle w f ^^ StyleConnections (widgets s w)) s1"
  have "toolbar_step s1 s2" unfolding s2_def by (rule toolbar_funpow)
  then obtain d where d: "trace s2 = trace s1 @ d" "list_all is_toolbar_call d"
    unfolding toolbar_step_def by blast
  have ne: "\<not> is_topLevelChanged e" if "is_toolbar_call e" for e
    using that by (cases e) simp_all
  have "filter is_topLevelChanged d = []"
    using d(2) ne by (auto simp: filter_empty_conv list_all_iff)
  then have "filter is_topLevelChanged (new_events s s2) = [Signal_topLevelChanged w f]"
    by (simp add: new_events_def d(1) s1_def)
  then show ?thesis by (simp add: emit_topLevelChanged_def s2_def s1_def)
qed

section \<open>The shape of a transition\<close>

lemma toggleViewInternal_SomeD:
  assumes "toggleViewInternal E w Open s = Some s'"
  shows "\<exists>s1 s8 c. (if Open then showDockWidget E w s else Some (hideDockWidget E w s)) = Some s1 \<and>
           quiet_step (toggle_switch w Open s1) s8 \<and>
           dockContainer (toggle_switch w Open s1) w = Some c \<and>
           s' = toggle_finish w Open c s8"
proof -
  define B where "B = (case dockContainer s w of Some c \<Rightarrow> topLevelDockWidget E s c | None \<Rightarrow> None)"
  from assms obtain s1 where s1: "(if Open then showDockWidget E w s else Some (hideDockWidget E w s)) = Some s1"
    unfolding toggleViewInternal_def Let_def by (auto split: bind_splits)
  define s6 where "s6 = toggle_switch w Open s1"
  from assms s1 obtain s7 where s7: "(if Open \<and> B \<noteq> None then emitTopLevelEventForWidget B False s6 else Some s6) = Some s7"
    and rest: "do {
        s8 \<leftarrow> emitTopLevelEventForWidget (case dockContainer s7 w of Some c \<Rightarrow> topLevelDockWidget E s7 c | None \<Rightarrow> None) True s7;
        c \<leftarrow> dockContainer s7 w;
        Some (toggle_finish w Open c s8) } = Some s'"
    unfolding toggleViewInternal_def Let_def s6_def toggle_switch_def toggle_finish_def B_def
    by (auto split: bind_splits)
  from rest obtain s8 c where s8: "emitTopLevelEventForWidget (case dockContainer s7 w of Some c \<Rightarrow> topLevelDockWidget E s7 c | None \<Rightarrow> None) True s7 = Some s8"
    and c: "dockContainer s7 w = Some c" and fin: "s' = toggle_finish w Open c s8"
    by (auto split: bind_splits)
  have q67: "quiet_step s6 s7"
    using s7 by (auto split: if_splits intro: quiet_step_refl quiet_emitTopLevelEventForWidget)
  have q78: "quiet_step s7 s8"
    using s8 by (rule quiet_emitTopLevelEventForWidget)
  have "dockContainer s6 w = Some c"
    using quiet_dockContainer [OF q67] c by simp
  with s1 quiet_step_trans [OF q67 q78] fin show ?thesis
    unfolding s6_def by blast
qed

lemma toggleViewInternal_total:
  assumes wf: "topLevel_assigned E"
    and s1: "(if Open then showDockWidget E w s else Some (hideDockWidget E w s)) = Some s1"
    and keep: "Open \<Longrightarrow> dockContainer s w \<noteq> None \<Longrightarrow> \<forall>v. DockArea (widgets s1 v) = DockArea (widgets s v)"
    and c: "dockContainer (toggle_switch w Open s1) w = Some c"
  shows "\<exists>s8. quiet_step (toggle_switch w Open s1) s8 \<and>
           toggleViewInternal E w Open s = Some (toggle_finish w Open c s8)"
proof -
  define B where "B = (case dockContainer s w of Some c \<Rightarrow> topLevelDockWidget E s c | None \<Rightarrow> None)"
  define s6 where "s6 = toggle_switch w Open s1"
  have area6: "DockArea (widgets s6 v) = DockArea (widgets s1 v)" for v
    unfolding s6_def toggle_switch_def Let_def
    by (simp add: action_defs Area_toggleDockWidgetView_def Let_def split: option.splits)
  have "\<exists>s7. (if Open \<and> B \<noteq> None then emitTopLevelEventForWidget B False s6 else Some s6) = Some s7"
  proof (cases "Open \<and> B \<noteq> None")
    case True
    then obtain t where t: "B = Some t" by auto
    then obtain c0 where "dockContainer s w = Some c0" "topLevelDockWidget E s c0 = Some t"
      unfolding B_def by (auto split: option.splits)
    then have "DockArea (widgets s t) \<noteq> None" "dockContainer s w \<noteq> None"
      using wf unfolding topLevel_assigned_def by auto
    then have "DockArea (widgets s6 t) \<noteq> None"
      using keep True area6 by simp
    then show ?thesis
      using True t by (auto simp: emitTopLevelEventForWidget_def)
  next
    case False
    then show ?thesis by auto
  qed
  then obtain s7 where s7: "(if Open \<and> B \<noteq> None then emitTopLevelEventForWidget B False s6 else Some s6) = Some s7"
    by blast
  have q67: "quiet_step s6 s7"
    using s7 by (auto split: if_splits intro: quiet_step_refl quiet_emitTopLevelEventForWidget)
  have c7: "dockContainer s7 w = Some c"
    using quiet_dockContainer [OF q67] c s6_def by simp
  define A where "A = topLevelDockWidget E s7 c"
  have "\<exists>s8. emitTopLevelEventForWidget A True s7 = Some s8"
  proof (cases A)
    case None
    then show ?thesis by (simp add: emitTopLevelEventForWidget_def)
  next
    case (Some t)
    then have "DockArea (widgets s7 t) \<noteq> None"
      using wf unfolding topLevel_assigned_def A_def by auto
    then show ?thesis using Some by (auto simp: emitTopLevelEventForWidget_def)
  qed
  then obtain s8 where s8: "emitTopLevelEventForWidget A True s7 = Some s8" by blast
  have q78: "quiet_step s7 s8"
    using s8 by (rule quiet_emitTopLevelEventForWidget)
  have "toggleViewInternal E w Open s = Some (toggle_finish w Open c s8)"
    using s1 s7 s8 c7
    unfolding toggleViewInternal_def Let_def toggle_finish_def A_def B_def s6_def toggle_switch_def
    by (simp split: if_splits)
  with quiet_step_trans [OF q67 q78] show ?thesis
    unfolding s6_def by blast
qed

lemma show_hide_events:
  assumes "(if Open then showDockWidget E w s else Some (hideDockWidget E w s)) = Some s1"
  shows "\<exists>d. trace s1 = trace s @ d \<and> list_all (\<lambda>e. \<not> is_notification e) d"
proof (cases Open)
  case False
  then have s1: "s1 = hideDockWidget E w s" using assms by simp
  show ?thesis
    unfolding s1 hideDockWidget_def updateParentDockArea_def
    by (auto simp add: Tab_hide_def Area_setCurrentDockWidget_def
        Area_hideAreaWithNoVisibleContent_def split: option.splits)
next
  case True
  then have s1: "showDockWidget E w s = Some s1" using assms by simp
  show ?thesis
  proof (cases "DockArea (widgets s w)")
    case None
    obtain f c a where al: "allocFloating E s w = (f, c, a)" by (cases "allocFloating E s w")
    show ?thesis
      using s1 unfolding showDockWidget_unassigned [OF None al]
      by (auto simp add: Floating_show_def Floating_resize_def setDockArea_def Let_def
          Action_setChecked_def)
  next
    case (Some a)
    show ?thesis
    proof (cases "areaContainer s a")
      case None
      then have "showDockWidget E w s = None"
        using Some
        by (simp add: showDockWidget_def Let_def showSplitters_eq Area_toggleView_def
            Area_setCurrentDockWidget_def Tab_show_def Area_dockContainer_def)
      with s1 show ?thesis by simp
    next
      case c: (Some c)
      have "list_all (\<lambda>e. \<not> is_notification e) (map Splitter_show_call xs)" for xs
        by (induction xs) simp_all
      then show ?thesis
        using s1 unfolding showDockWidget_assigned [OF Some c]
        by (auto split: option.splits)
    qed
  qed
qed

lemma show_hide_DockArea:
  assumes "(if Open then showDockWidget E w s else Some (hideDockWidget E w s)) = Some s1"
    and "DockArea (widgets s w) \<noteq> None \<or> \<not> Open"
  shows "DockArea (widgets s1 v) = DockArea (widgets s v)"
proof (cases Open)
  case False
  then have s1: "s1 = hideDockWidget E w s" using assms by simp
  show ?thesis
    unfolding s1 hideDockWidget_def updateParentDockArea_def
    by (auto simp add: Tab_hide_def Area_setCurrentDockWidget_def
        Area_hideAreaWithNoVisibleContent_def split: option.splits)
next
  case True
  then obtain a where a: "DockArea (widgets s w) = Some a" using assms(2) by auto
  from True have s1: "showDockWidget E w s = Some s1" using assms by simp
  show ?thesis
  proof (cases "areaContainer s a")
    case None
    then have "showDockWidget E w s = None"
      using a
      by (simp add: showDockWidget_def Let_def showSplitters_eq Area_toggleView_def
          Area_setCurrentDockWidget_def Tab_show_def Area_dockContainer_def)
    with s1 show ?thesis by simp
  next
    case (Some c)
    show ?thesis
      using s1 unfolding showDockWidget_assigned [OF a Some] by auto
  qed
qed

lemma toggleViewInternal_shape:
  assumes "toggleViewInternal E w Open s = Some s'"
  obtains s1 a c d where
    "(if Open then showDockWidget E w s else Some (hideDockWidget E w s)) = Some s1"
    "DockArea (widgets s1 w) = Some a" "areaContainer s1 a = Some c"
    "trace s' = trace s1 @ [Area_toggleDockWidgetView_call a w Open] @ d
        @ (case containerFloating s1 c of Some f \<Rightarrow> [Floating_updateWindowTitle_call f] | None \<Rightarrow> [])
        @ (if Open then [] else [Signal_closed w]) @ [Signal_viewToggled w Open]"
    "list_all quiet_ev d"
    "\<And>v. core (widgets s' v) = core (widgets (toggle_switch w Open s1) v)"
    "areaVisible s' = areaVisible s1 \<and> areaCurrent s' = areaCurrent s1 \<and>
     areaMenuOutdated s' = areaMenuOutdated s1 \<and>
     areaContainer s' = areaContainer s1 \<and> containerFloating s' = containerFloating s1"
proof -
  from toggleViewInternal_SomeD [OF assms] obtain s1 s8 c where
    s1: "(if Open then showDockWidget E w s else Some (hideDockWidget E w s)) = Some s1"
    and q: "quiet_step (toggle_switch w Open s1) s8"
    and c: "dockContainer (toggle_switch w Open s1) w = Some c"
    and s': "s' = toggle_finish w Open c s8"
    by blast
  from c obtain a where a: "DockArea (widgets s1 w) = Some a" and ac: "areaContainer s1 a = Some c"
    by (auto simp add: dockContainer_def toggle_switch_widgets toggle_switch_layout
        Area_dockContainer_def split: option.splits)
  from q obtain d where d: "trace s8 = trace (toggle_switch w Open s1) @ d" "list_all quiet_ev d"
    unfolding quiet_step_def by blast
  have lay: "areaVisible s8 = areaVisible s1" "areaCurrent s8 = areaCurrent s1"
    "areaMenuOutdated s8 = areaMenuOutdated s1"
    "areaContainer s8 = areaContainer s1" "containerFloating s8 = containerFloating s1"
    using q by (simp_all add: quiet_step_def toggle_switch_layout)
  have tr: "trace s' = trace s1 @ [Area_toggleDockWidgetView_call a w Open] @ d
        @ (case containerFloating s1 c of Some f \<Rightarrow> [Floating_updateWindowTitle_call f] | None \<Rightarrow> [])
        @ (if Open then [] else [Signal_closed w]) @ [Signal_viewToggled w Open]"
    by (simp add: s' toggle_finish_simps d(1) toggle_switch_trace a lay)
  have co: "core (widgets s' v) = core (widgets (toggle_switch w Open s1) v)" for v
    using quiet_core [OF q] by (simp add: s' toggle_finish_simps)
  have lay': "areaVisible s' = areaVisible s1 \<and> areaCurrent s' = areaCurrent s1 \<and>
     areaMenuOutdated s' = areaMenuOutdated s1 \<and>
     areaContainer s' = areaContainer s1 \<and> containerFloating s' = containerFloating s1"
    using lay by (simp add: s' toggle_finish_simps)
  show ?thesis
    by (rule that [OF s1 a ac tr d(2) co lay'])
qed

lemma toggleViewInternal_close_unassigned:
  assumes "DockArea (widgets s w) = None"
  shows "toggleViewInternal E w False s = None"
proof (cases "toggleViewInternal E w False s")
  case None
  then show ?thesis .
next
  case (Some s')
  from Some show ?thesis
  proof (rule toggleViewInternal_shape)
    fix s1 a
    assume s1: "(if False then showDockWidget E w s else Some (hideDockWidget E w s)) = Some s1"
      and a: "DockArea (widgets s1 w) = Some a"
    have "DockArea (widgets s1 w) = DockArea (widgets s w)"
      by (rule show_hide_DockArea [OF s1]) simp
    with a assms show ?thesis by simp
  qed
qed

section \<open>Transitions that return\<close>

lemma toggleViewInternal_returns:
  assumes wf: "topLevel_assigned E"
    and op: "Open \<Longrightarrow> DockArea (widgets s w) = Some a \<Longrightarrow> areaContainer s a \<noteq> None"
    and cl: "\<not> Open \<Longrightarrow> DockArea (widgets s w) = Some a \<and> areaContainer s a \<noteq> None"
    and a: "DockArea (widgets s w) = None \<or> DockArea (widgets s w) = Some a"
  shows "\<exists>s'. toggleViewInternal E w Open s = Some s'"
proof -
  have "\<exists>s1 c. (if Open then showDockWidget E w s else Some (hideDockWidget E w s)) = Some s1 \<and>
          dockContainer (toggle_switch w Open s1) w = Some c"
  proof (cases "DockArea (widgets s w)")
    case None
    then have Open using cl by auto
    obtain f c b where al: "allocFloating E s w = (f, c, b)" by (cases "allocFloating E s w")
    show ?thesis
      using \<open>Open\<close> unfolding showDockWidget_unassigned [OF None al]
      by (simp add: dockContainer_def toggle_switch_widgets toggle_switch_layout
          Area_dockContainer_def Floating_show_def Floating_resize_def setDockArea_def
          Let_def Action_setChecked_def)
  next
    case (Some b)
    then have b: "b = a" using a by simp
    from op cl Some b obtain c where c: "areaContainer s a = Some c" by (cases Open) auto
    show ?thesis
    proof (cases Open)
      case True
      then show ?thesis
        using c Some unfolding b
        by (simp add: showDockWidget_assigned dockContainer_def toggle_switch_widgets
            toggle_switch_layout Area_dockContainer_def)
    next
      case False
      then show ?thesis
        using c Some unfolding b
        by (simp add: hideDockWidget_assigned dockContainer_def toggle_switch_widgets
            toggle_switch_layout Area_dockContainer_def Tab_hide_def
            Area_setCurrentDockWidget_def Area_hideAreaWithNoVisibleContent_def
            split: option.splits)
    qed
  qed
  then obtain s1 c where s1: "(if Open then showDockWidget E w s else Some (hideDockWidget E w s)) = Some s1"
    and c: "dockContainer (toggle_switch w Open s1) w = Some c" by blast
  have keep: "\<forall>v. DockArea (widgets s1 v) = DockArea (widgets s v)"
    if "Open" "dockContainer s w \<noteq> None"
  proof -
    from that(2) have "DockArea (widgets s w) \<noteq> None"
      by (auto simp: dockContainer_def split: option.splits)
    then show ?thesis using show_hide_DockArea [OF s1] by simp
  qed
  from toggleViewInternal_total [OF wf s1 keep c] show ?thesis by blast
qed

section \<open>The toggle view action through a transition\<close>

lemma setDockArea_simps:
  "widgets (setDockArea w A s) =
     (widgets s)(w := (widgets s w)
        \<lparr>DockArea := A,
         ToggleViewAction := (ToggleViewAction (widgets s w))
           \<lparr>checked := (if checkable (ToggleViewAction (widgets s w))
                         then A \<noteq> None \<and> \<not> Closed (widgets s w)
                         else checked (ToggleViewAction (widgets s w)))\<rparr>\<rparr>)"
  "trace (setDockArea w A s) =
     trace s @ (if checkable (ToggleViewAction (widgets s w)) \<and>
                   checked (ToggleViewAction (widgets s w)) \<noteq> (A \<noteq> None \<and> \<not> Closed (widgets s w)) \<and>
                   \<not> signalsBlocked (ToggleViewAction (widgets s w))
                then [Action_toggled w (A \<noteq> None \<and> \<not> Closed (widgets s w))] else [])"
  "areaVisible (setDockArea w A s) = areaVisible s"
  "areaCurrent (setDockArea w A s) = areaCurrent s"
  "areaMenuOutdated (setDockArea w A s) = areaMenuOutdated s"
  "areaContainer (setDockArea w A s) = areaContainer s"
  "areaSplitters (setDockArea w A s) = areaSplitters s"
  "splitterVisible (setDockArea w A s) = splitterVisible s"
  "containerFloating (setDockArea w A s) = containerFloating s"
  by (auto simp add: setDockArea_def Let_def Action_setChecked_def isClosed_def fun_eq_iff)

lemma show_hide_action:
  assumes "(if Open then showDockWidget E w s else Some (hideDockWidget E w s)) = Some s1"
  shows "checkable (ToggleViewAction (widgets s1 v)) = checkable (ToggleViewAction (widgets s v))"
    and "DockArea (widgets s w) \<noteq> None \<or> \<not> Open \<Longrightarrow>
           ToggleViewAction (widgets s1 v) = ToggleViewAction (widgets s v)"
proof -
  have "checkable (ToggleViewAction (widgets s1 v)) = checkable (ToggleViewAction (widgets s v)) \<and>
    (DockArea (widgets s w) \<noteq> None \<or> \<not> Open \<longrightarrow>
           ToggleViewAction (widgets s1 v) = ToggleViewAction (widgets s v))"
  proof (cases Open)
    case False
    then have s1: "s1 = hideDockWidget E w s" using assms by simp
    show ?thesis
      unfolding s1 hideDockWidget_def updateParentDockArea_def
      by (auto simp add: Tab_hide_def Area_setCurrentDockWidget_def
          Area_hideAreaWithNoVisibleContent_def split: option.splits)
  next
    case True
    then have s1: "showDockWidget E w s = Some s1" using assms by simp
    show ?thesis
    proof (cases "DockArea (widgets s w)")
      case None
      obtain f c a where al: "allocFloating E s w = (f, c, a)" by (cases "allocFloating E s w")
      show ?thesis
        using s1 None True unfolding showDockWidget_unassigned [OF None al]
        by (auto simp add: Floating_show_def Floating_resize_def setDockArea_simps
            split: if_splits)
    next
      case (Some a)
      show ?thesis
      proof (cases "areaContainer s a")
        case None
        then have "showDockWidget E w s = None"
          using Some
          by (simp add: showDockWidget_def Let_def showSplitters_eq Area_toggleView_def
              Area_setCurrentDockWidget_def Tab_show_def Area_dockContainer_def)
        with s1 show ?thesis by simp
      next
        case c: (Some c)
        show ?thesis
          using s1 unfolding showDockWidget_assigned [OF Some c]
          by (auto split: if_splits)
      qed
    qed
  qed
  then show "checkable (ToggleViewAction (widgets s1 v)) = checkable (ToggleViewAction (widgets s v))"
    and "DockArea (widgets s w) \<noteq> None \<or> \<not> Open \<Longrightarrow>
           ToggleViewAction (widgets s1 v) = ToggleViewAction (widgets s v)"
    by simp_all
qed

lemma show_hide_assigned_events:
  assumes "(if Open then showDockWidget E w s else Some (hideDockWidget E w s)) = Some s1"
    and "DockArea (widgets s w) \<noteq> None \<or> \<not> Open"
  shows "\<exists>d. trace s1 = trace s @ d \<and> list_all (\<lambda>e. \<not> is_action_signal e) d"
proof (cases Open)
  case False
  then have s1: "s1 = hideDockWidget E w s" using assms by simp
  show ?thesis
    unfolding s1 hideDockWidget_def updateParentDockArea_def
    by (auto simp add: Tab_hide_def Area_setCurrentDockWidget_def
        Area_hideAreaWithNoVisibleContent_def split: option.splits)
next
  case True
  then obtain a where a: "DockArea (widgets s w) = Some a" using assms(2) by auto
  from True have s1: "showDockWidget E w s = Some s1" using assms by simp
  show ?thesis
  proof (cases "areaContainer s a")
    case None
    then have "showDockWidget E w s = None"
      using a
      by (simp add: showDockWidget_def Let_def showSplitters_eq Area_toggleView_def
          Area_setCurrentDockWidget_def Tab_show_def Area_dockContainer_def)
    with s1 show ?thesis by simp
  next
    case (Some c)
    have "list_all (\<lambda>e. \<not> is_action_signal e) (map Splitter_show_call xs)" for xs
      by (induction xs) simp_all
    then show ?thesis
      using s1 unfolding showDockWidget_assigned [OF a Some] by (auto split: option.splits)
  qed
qed

lemma filter_none:
  assumes "list_all Q d" and "\<And>e. Q e \<Longrightarrow> \<not> P e"
  shows "filter P d = []"
  using assms by (auto simp: filter_empty_conv list_all_iff)

section \<open>Facts about the concrete states\<close>

lemma docked_facts:
  "DockArea (widgets docked 2) = Some 3" "DockArea (widgets docked 4) = Some 3"
  "areaContainer docked 3 = Some 5" "\<not> Closed (widgets docked 2)"
  "checkable (ToggleViewAction (widgets docked 2))"
  "containerFloating docked 5 = None" "areaVisible docked 3" "trace docked = [Action_toggled 2 True, Action_toggled 4 True]"
  by (simp_all add: docked_def setDockArea_simps fresh_def CDockWidget_new_def)

lemma topLevel_assigned_env0: "topLevel_assigned env0"
  by (simp add: topLevel_assigned_def env0_def)

lemma topLevel_assigned_env1: "topLevel_assigned env1"
  by (simp add: topLevel_assigned_def env1_def)

lemma unassigned_facts:
  "Closed (widgets unassigned 2)" "DockArea (widgets unassigned 2) = None"
  "checkable (ToggleViewAction (widgets unassigned 2))"
  by (simp_all add: unassigned_def flagAsUnassigned_def Let_def setDockArea_simps
      QWidget_setParent_def QWidget_setVisible_def Tab_setParent_def setDockManager_def
      fresh_def CDockWidget_new_def)

lemma returns_the: "\<exists>y. x = Some y \<Longrightarrow> x \<noteq> None \<and> x = Some (the x)"
  by auto

lemma docked_layout:
  "areaSplitters docked 3 = [11, 12]" "splitterVisible docked 12" "\<not> splitterVisible docked 11"
  "widgetSize (widgets unassigned 2) = (640, 480)" "allocFloating env0 s w = (7, 5, 3)"
  by (simp_all add: docked_def setDockArea_simps fresh_def unassigned_def flagAsUnassigned_def
      Let_def QWidget_setParent_def QWidget_setVisible_def Tab_setParent_def setDockManager_def
      CDockWidget_new_def env0_def)

lemma showmode_unassigned_facts:
  "DockArea (widgets showmode_unassigned 2) = None" "Closed (widgets showmode_unassigned 2)"
  "\<not> checkable (ToggleViewAction (widgets showmode_unassigned 2))"
  by (simp_all add: showmode_unassigned_def showmode_def setToggleViewActionMode_def
      Action_setCheckable_def flagAsUnassigned_def
      Let_def QWidget_setParent_def QWidget_setVisible_def Tab_setParent_def setDockArea_simps
      fresh_def CDockWidget_new_def)

section \<open>The widget after a transition\<close>

lemma toggleViewInternal_state:
  assumes t: "toggleViewInternal E w Open s = Some s'"
  shows "Closed (widgets s' w) = (\<not> Open) \<and> DockArea (widgets s' w) \<noteq> None \<and>
    checkable (ToggleViewAction (widgets s' w)) = checkable (ToggleViewAction (widgets s w)) \<and>
    (checkable (ToggleViewAction (widgets s w)) \<longrightarrow> checked (ToggleViewAction (widgets s' w)) = Open)"
  using t
proof (rule toggleViewInternal_shape)
  fix s1 a
  assume s1: "(if Open then showDockWidget E w s else Some (hideDockWidget E w s)) = Some s1"
    and a: "DockArea (widgets s1 w) = Some a"
    and co: "\<And>v. core (widgets s' v) = core (widgets (toggle_switch w Open s1) v)"
  have ck1: "checkable (ToggleViewAction (widgets s1 w)) = checkable (ToggleViewAction (widgets s w))"
    by (rule show_hide_action(1) [OF s1])
  have "ToggleViewAction (widgets s' w) = ToggleViewAction (widgets (toggle_switch w Open s1) w)"
    "Closed (widgets s' w) = Closed (widgets (toggle_switch w Open s1) w)"
    "DockArea (widgets s' w) = DockArea (widgets (toggle_switch w Open s1) w)"
    using co [of w] by (rule core_fields)+
  then show ?thesis
    using ck1 a by (simp add: toggle_switch_widgets)
qed

lemma quiet_no_floating: "list_all quiet_ev d \<Longrightarrow> filter is_floating_call d = []"
proof (rule filter_none)
  fix e show "quiet_ev e \<Longrightarrow> \<not> is_floating_call e" by (cases e) simp_all
qed

lemma quiet_no_hideArea: "list_all quiet_ev d \<Longrightarrow> filter is_hideArea d = []"
proof (rule filter_none)
  fix e show "quiet_ev e \<Longrightarrow> \<not> is_hideArea e" by (cases e) simp_all
qed

lemma quiet_no_setCurrent: "list_all quiet_ev d \<Longrightarrow> filter is_setCurrentDockWidget d = []"
proof (rule filter_none)
  fix e show "quiet_ev e \<Longrightarrow> \<not> is_setCurrentDockWidget e" by (cases e) simp_all
qed

section \<open>Toggling the view\<close>

text \<open>
  C1. A call of \<open>toggleView\<close> whose requested state differs from the current state has to
  perform exactly one real transition. For a widget as its constructor leaves it (open,
  \<open>DockArea\<close> null) and \<open>toggleView(false)\<close>, the requested state is closed and the current
  state is open, \<open>toggleView\<close> enters \<open>toggleViewInternal(false)\<close>, and that run does not
  return: it dereferences the null dock container at line 476, before \<open>closed\<close> and
  \<open>viewToggled\<close> are emitted. Two triggers of the toggle view action of that widget end
  in the same call.
\<close>

theorem toggleView_close_fresh_widget_no_transition:
  "\<not> isClosed fresh 2 \<and> \<not> requested fresh 2 None False \<and>
   toggleView env0 2 None False fresh = toggleViewInternal env0 2 False fresh \<and>
   toggleViewInternal env0 2 False fresh = None \<and>
   Action_trigger env0 2 fresh \<noteq> None \<and>
   Action_trigger env0 2 (the (Action_trigger env0 2 fresh)) = None"
proof -
  have f: "DockArea (widgets fresh 2) = None" "\<not> Closed (widgets fresh 2)"
    "checkable (ToggleViewAction (widgets fresh 2))"
    "\<not> checked (ToggleViewAction (widgets fresh 2))"
    "\<not> signalsBlocked (ToggleViewAction (widgets fresh 2))"
    by (simp_all add: fresh_def CDockWidget_new_def)
  have a: "\<not> isClosed fresh 2 \<and> \<not> requested fresh 2 None False"
    using f by (simp add: isClosed_def requested_def)
  have b: "toggleViewInternal env0 2 False fresh = None"
    by (rule toggleViewInternal_close_unassigned [OF f(1)])
  have c: "toggleView env0 2 None False fresh = toggleViewInternal env0 2 False fresh"
    using f by (simp add: toggleView_def)
  define s1 where "s1 = emit (Action_triggered 2 True) (Action_setChecked 2 True fresh)"
  have g: "DockArea (widgets s1 2) = None" "\<not> Closed (widgets s1 2)"
    "checkable (ToggleViewAction (widgets s1 2))" "checked (ToggleViewAction (widgets s1 2))"
    "\<not> signalsBlocked (ToggleViewAction (widgets s1 2))"
    using f by (simp_all add: s1_def Action_setChecked_def Let_def)
  have t1: "Action_trigger env0 2 fresh = Some s1"
    using f by (simp add: Action_trigger_def Let_def s1_def toggleView_def
        Action_isCheckable_def Action_isChecked_def Action_setChecked_def)
  define s2 where "s2 = emit (Action_triggered 2 False) (Action_setChecked 2 False s1)"
  have h: "DockArea (widgets s2 2) = None" "\<not> Closed (widgets s2 2)"
    using g by (simp_all add: s2_def Action_setChecked_def Let_def)
  have "Action_trigger env0 2 s1 = toggleViewInternal env0 2 False s2"
    using g h by (simp add: Action_trigger_def Let_def s2_def toggleView_def
        Action_isCheckable_def Action_isChecked_def Action_setChecked_def)
  then have t2: "Action_trigger env0 2 s1 = None"
    by (simp add: toggleViewInternal_close_unassigned [OF h(1)])
  from a b c t1 t2 show ?thesis by simp
qed

text \<open>
  On the other inputs. \<open>toggleView\<close> on a widget that is open, when the requested state is
  open, performs no transition: it returns with all widgets (closed flags, toggle view
  actions) unchanged and its only event is the \<open>setCurrentDockWidget\<close> call on the assigned
  area (no event for an unassigned widget). When the requested state differs from the
  current one, \<open>toggleView\<close> is one run of \<open>toggleViewInternal\<close>, and a run that returns emits
  \<open>viewToggled\<close> exactly once and leaves the closed flag at the requested state. So
  \<open>toggleView(true)\<close> twice on a closed widget is one transition, then one
  \<open>setCurrentDockWidget\<close> call by the second \<open>toggleView\<close>, with a single \<open>viewToggled\<close> in
  all. On a layout whose containers report assigned top level widgets, the run returns
  for every open request of a closed widget that is unassigned or whose area sits in a
  dock container, and for every close request of an open widget whose area sits in a dock
  container.
\<close>

lemma toggleView_returning_transitions:
  "(\<not> Closed (widgets s w) \<and> requested s w Sender Open0 \<longrightarrow>
      (case DockArea (widgets s w) of
         Some a \<Rightarrow>
           toggleView E w Sender Open0 s = Some (Area_setCurrentDockWidget a w s) \<and>
           widgets (Area_setCurrentDockWidget a w s) = widgets s \<and>
           new_events s (Area_setCurrentDockWidget a w s) = [Area_setCurrentDockWidget_call a w]
       | None \<Rightarrow> toggleView E w Sender Open0 s = Some s)) \<and>
   (Closed (widgets s w) = requested s w Sender Open0 \<longrightarrow>
      toggleView E w Sender Open0 s = toggleViewInternal E w (requested s w Sender Open0) s) \<and>
   (toggleViewInternal E w Open s = Some s' \<longrightarrow>
      filter is_viewToggled (new_events s s') = [Signal_viewToggled w Open] \<and>
      isClosed s' w = (\<not> Open)) \<and>
   (Closed (widgets s w) \<and> toggleView E w None True s = Some s1 \<longrightarrow>
      (\<exists>a. dockAreaWidget s1 w = Some a \<and>
           toggleView E w None True s1 = Some (Area_setCurrentDockWidget a w s1) \<and>
           new_events s1 (Area_setCurrentDockWidget a w s1) = [Area_setCurrentDockWidget_call a w] \<and>
           filter is_viewToggled (new_events s (Area_setCurrentDockWidget a w s1)) =
             [Signal_viewToggled w True])) \<and>
   (Closed (widgets s w) \<and> topLevel_assigned E \<and>
    (DockArea (widgets s w) = None \<or>
     (\<exists>a c. DockArea (widgets s w) = Some a \<and> areaContainer s a = Some c)) \<longrightarrow>
      toggleView E w None True s \<noteq> None) \<and>
   (\<not> Closed (widgets s w) \<and> topLevel_assigned E \<and>
    (\<exists>a c. DockArea (widgets s w) = Some a \<and> areaContainer s a = Some c) \<longrightarrow>
      toggleView E w None False s \<noteq> None)"
proof -
  have noop: "(case DockArea (widgets s w) of
         Some a \<Rightarrow>
           toggleView E w Sender Open0 s = Some (Area_setCurrentDockWidget a w s) \<and>
           widgets (Area_setCurrentDockWidget a w s) = widgets s \<and>
           new_events s (Area_setCurrentDockWidget a w s) = [Area_setCurrentDockWidget_call a w]
       | None \<Rightarrow> toggleView E w Sender Open0 s = Some s)"
    if "\<not> Closed (widgets s w)" "requested s w Sender Open0"
    using that
    by (auto simp add: toggleView_def requested_def Let_def Area_setCurrentDockWidget_def
        new_events_def split: option.splits)
  have real: "toggleView E w Sender Open0 s = toggleViewInternal E w (requested s w Sender Open0) s"
    if "Closed (widgets s w) = requested s w Sender Open0"
    using that by (auto simp add: toggleView_def requested_def Let_def)
  have once: "filter is_viewToggled (new_events s t) = [Signal_viewToggled w b] \<and>
      isClosed t w = (\<not> b) \<and> DockArea (widgets t w) \<noteq> None \<and>
      length (trace s) \<le> length (trace t)"
    if t: "toggleViewInternal E w b s = Some t" for b t
    using t
  proof (rule toggleViewInternal_shape)
    fix s1 a c d
    assume s1: "(if b then showDockWidget E w s else Some (hideDockWidget E w s)) = Some s1"
      and a: "DockArea (widgets s1 w) = Some a"
      and tr: "trace t = trace s1 @ [Area_toggleDockWidgetView_call a w b] @ d
        @ (case containerFloating s1 c of Some f \<Rightarrow> [Floating_updateWindowTitle_call f] | None \<Rightarrow> [])
        @ (if b then [] else [Signal_closed w]) @ [Signal_viewToggled w b]"
      and d: "list_all quiet_ev d"
      and co: "\<And>v. core (widgets t v) = core (widgets (toggle_switch w b s1) v)"
    from show_hide_events [OF s1] obtain d1 where
      d1: "trace s1 = trace s @ d1" "list_all (\<lambda>e. \<not> is_notification e) d1" by blast
    have n1: "filter is_viewToggled d1 = []"
    proof -
      have "\<not> is_viewToggled e" if "\<not> is_notification e" for e
        using that by (cases e) simp_all
      then show ?thesis using d1(2) by (auto simp: filter_empty_conv list_all_iff)
    qed
    have n2: "filter is_viewToggled d = []"
    proof -
      have "\<not> is_viewToggled e" if "quiet_ev e" for e
        using that by (cases e) simp_all
      then show ?thesis using d by (auto simp: filter_empty_conv list_all_iff)
    qed
    have ev: "filter is_viewToggled (new_events s t) = [Signal_viewToggled w b]"
      by (simp add: new_events_def tr d1(1) n1 n2 split: option.splits)
    have len: "length (trace s) \<le> length (trace t)"
      by (simp add: tr d1(1))
    have "Closed (widgets t w) = (\<not> b)" "DockArea (widgets t w) = Some a"
      using core_fields(5) [OF co [of w]] core_fields(3) [OF co [of w]] a
      by (simp_all add: toggle_switch_widgets)
    with ev len show ?thesis by (simp add: isClosed_def)
  qed
  have twice: "\<exists>a. dockAreaWidget s1 w = Some a \<and>
           toggleView E w None True s1 = Some (Area_setCurrentDockWidget a w s1) \<and>
           new_events s1 (Area_setCurrentDockWidget a w s1) = [Area_setCurrentDockWidget_call a w] \<and>
           filter is_viewToggled (new_events s (Area_setCurrentDockWidget a w s1)) =
             [Signal_viewToggled w True]"
    if "Closed (widgets s w)" "toggleView E w None True s = Some s1"
  proof -
    from that have t: "toggleViewInternal E w True s = Some s1"
      by (simp add: toggleView_def)
    from once [OF t] obtain a where
      a: "DockArea (widgets s1 w) = Some a" and c: "\<not> Closed (widgets s1 w)"
      and ev: "filter is_viewToggled (new_events s s1) = [Signal_viewToggled w True]"
      and len: "length (trace s) \<le> length (trace s1)"
      by (auto simp: isClosed_def)
    have "filter is_viewToggled (new_events s (Area_setCurrentDockWidget a w s1)) =
        [Signal_viewToggled w True]"
      using ev len by (simp add: new_events_def Area_setCurrentDockWidget_def)
    with a c show ?thesis
      by (simp add: dockAreaWidget_def toggleView_def Action_isCheckable_def
          Area_setCurrentDockWidget_def new_events_def)
  qed
  have ret: "toggleView E w None True s \<noteq> None"
    if "Closed (widgets s w)" "topLevel_assigned E"
      "DockArea (widgets s w) = None \<or> (\<exists>a c. DockArea (widgets s w) = Some a \<and> areaContainer s a = Some c)"
  proof -
    from that(3) obtain a where
      a: "DockArea (widgets s w) = None \<or> DockArea (widgets s w) = Some a"
      and c: "DockArea (widgets s w) = Some a \<Longrightarrow> areaContainer s a \<noteq> None"
      by auto
    have "\<exists>s'. toggleViewInternal E w True s = Some s'"
      by (rule toggleViewInternal_returns [OF that(2) _ _ a]) (use c in auto)
    with that(1) show ?thesis by (auto simp add: toggleView_def)
  qed
  have retc: "toggleView E w None False s \<noteq> None"
    if "\<not> Closed (widgets s w)" "topLevel_assigned E"
      "\<exists>a c. DockArea (widgets s w) = Some a \<and> areaContainer s a = Some c"
  proof -
    from that(3) obtain a where
      a: "DockArea (widgets s w) = Some a" and c: "areaContainer s a \<noteq> None"
      by auto
    have "\<exists>s'. toggleViewInternal E w False s = Some s'"
      by (rule toggleViewInternal_returns [OF that(2), of _ s w a]) (use a c in auto)
    with that(1) show ?thesis by (auto simp add: toggleView_def)
  qed
  from noop real once [of Open s'] twice ret retc show ?thesis by blast
qed

lemma toggleView_returning_transitions_examples:
  "toggleView env0 2 None True docked = Some (Area_setCurrentDockWidget 3 2 docked) \<and>
   widgets (Area_setCurrentDockWidget 3 2 docked) = widgets docked \<and>
   new_events docked (Area_setCurrentDockWidget 3 2 docked) = [Area_setCurrentDockWidget_call 3 2] \<and>
   toggleView env0 2 None False docked = toggleViewInternal env0 2 False docked \<and>
   toggleViewInternal env0 2 False docked \<noteq> None \<and>
   filter is_viewToggled (new_events docked (the (toggleViewInternal env0 2 False docked))) =
     [Signal_viewToggled 2 False] \<and>
   isClosed (the (toggleViewInternal env0 2 False docked)) 2 \<and>
   toggleView env0 2 None True unassigned \<noteq> None \<and>
   (\<exists>a. dockAreaWidget (the (toggleView env0 2 None True unassigned)) 2 = Some a \<and>
        toggleView env0 2 None True (the (toggleView env0 2 None True unassigned)) =
          Some (Area_setCurrentDockWidget a 2 (the (toggleView env0 2 None True unassigned))) \<and>
        new_events (the (toggleView env0 2 None True unassigned))
          (Area_setCurrentDockWidget a 2 (the (toggleView env0 2 None True unassigned))) =
          [Area_setCurrentDockWidget_call a 2] \<and>
        filter is_viewToggled (new_events unassigned
          (Area_setCurrentDockWidget a 2 (the (toggleView env0 2 None True unassigned)))) =
          [Signal_viewToggled 2 True])"
proof -
  have r1: "requested docked 2 None True" "\<not> requested docked 2 None False"
    by (simp_all add: requested_def)
  have "\<exists>s'. toggleViewInternal env0 2 False docked = Some s'"
    by (rule toggleViewInternal_returns [OF topLevel_assigned_env0, of _ docked 2 3])
      (simp_all add: docked_facts)
  then have t1: "toggleViewInternal env0 2 False docked \<noteq> None \<and>
      toggleViewInternal env0 2 False docked = Some (the (toggleViewInternal env0 2 False docked))"
    by (rule returns_the)
  have "\<exists>s'. toggleViewInternal env0 2 True unassigned = Some s'"
    by (rule toggleViewInternal_returns [OF topLevel_assigned_env0, of _ unassigned 2 3])
      (simp_all add: unassigned_facts)
  then have "\<exists>s'. toggleView env0 2 None True unassigned = Some s'"
    by (simp add: toggleView_def unassigned_facts)
  then have t2: "toggleView env0 2 None True unassigned \<noteq> None \<and>
      toggleView env0 2 None True unassigned = Some (the (toggleView env0 2 None True unassigned))"
    by (rule returns_the)
  have p1: "toggleView env0 2 None True docked = Some (Area_setCurrentDockWidget 3 2 docked) \<and>
      widgets (Area_setCurrentDockWidget 3 2 docked) = widgets docked \<and>
      new_events docked (Area_setCurrentDockWidget 3 2 docked) = [Area_setCurrentDockWidget_call 3 2]"
    using r1(1) docked_facts(1,4)
      toggleView_returning_transitions [of docked 2 None True env0 False docked docked]
    by auto
  have p2: "toggleView env0 2 None False docked = toggleViewInternal env0 2 False docked"
    using r1(2) docked_facts(4)
      toggleView_returning_transitions [of docked 2 None False env0 False docked docked]
    by simp
  have p3: "filter is_viewToggled (new_events docked (the (toggleViewInternal env0 2 False docked))) =
        [Signal_viewToggled 2 False] \<and>
      isClosed (the (toggleViewInternal env0 2 False docked)) 2"
    using t1
      toggleView_returning_transitions [of docked 2 None False env0 False
        "the (toggleViewInternal env0 2 False docked)" docked]
    by blast
  have p4: "\<exists>a. dockAreaWidget (the (toggleView env0 2 None True unassigned)) 2 = Some a \<and>
        toggleView env0 2 None True (the (toggleView env0 2 None True unassigned)) =
          Some (Area_setCurrentDockWidget a 2 (the (toggleView env0 2 None True unassigned))) \<and>
        new_events (the (toggleView env0 2 None True unassigned))
          (Area_setCurrentDockWidget a 2 (the (toggleView env0 2 None True unassigned))) =
          [Area_setCurrentDockWidget_call a 2] \<and>
        filter is_viewToggled (new_events unassigned
          (Area_setCurrentDockWidget a 2 (the (toggleView env0 2 None True unassigned)))) =
          [Signal_viewToggled 2 True]"
    using t2 unassigned_facts(1)
      toggleView_returning_transitions [of unassigned 2 None True env0 True
        "the (toggleView env0 2 None True unassigned)" "the (toggleView env0 2 None True unassigned)"]
    by blast
  from p1 p2 p3 p4 t1 t2 show ?thesis by blast
qed

section \<open>The checked state of the toggle view action\<close>

text \<open>
  C2, for a checkable toggle view action. For a widget whose toggle view action is
  checkable: after \<open>setDockArea\<close>, and after a run of \<open>toggleViewInternal\<close> that
  returns, the action is checked exactly when the dock area reference is non-null and the
  widget is not closed.
\<close>

theorem toggle_action_checked_when_checkable:
  "(Action_isCheckable s w \<longrightarrow>
      Action_isChecked (setDockArea w A s) w =
        (dockAreaWidget (setDockArea w A s) w \<noteq> None \<and> \<not> isClosed (setDockArea w A s) w)) \<and>
   (Action_isCheckable s w \<and> toggleViewInternal E w Open s = Some s' \<longrightarrow>
      Action_isChecked s' w = (dockAreaWidget s' w \<noteq> None \<and> \<not> isClosed s' w))"
proof -
  have one: "Action_isChecked (setDockArea w A s) w =
        (dockAreaWidget (setDockArea w A s) w \<noteq> None \<and> \<not> isClosed (setDockArea w A s) w)"
    if "Action_isCheckable s w"
    using that
    by (auto simp add: setDockArea_def Let_def action_defs isClosed_def dockAreaWidget_def)
  have two: "Action_isChecked s' w = (dockAreaWidget s' w \<noteq> None \<and> \<not> isClosed s' w)"
    if ck: "Action_isCheckable s w" and t: "toggleViewInternal E w Open s = Some s'"
    using t
  proof (rule toggleViewInternal_shape)
    fix s1 a
    assume s1: "(if Open then showDockWidget E w s else Some (hideDockWidget E w s)) = Some s1"
      and a: "DockArea (widgets s1 w) = Some a"
      and co: "\<And>v. core (widgets s' v) = core (widgets (toggle_switch w Open s1) v)"
    have ck1: "checkable (ToggleViewAction (widgets s1 w))"
      using show_hide_action(1) [OF s1, of w] ck by (simp add: Action_isCheckable_def)
    have "ToggleViewAction (widgets s' w) = ToggleViewAction (widgets (toggle_switch w Open s1) w)"
      "Closed (widgets s' w) = Closed (widgets (toggle_switch w Open s1) w)"
      "DockArea (widgets s' w) = DockArea (widgets (toggle_switch w Open s1) w)"
      using co [of w] by (rule core_fields)+
    then show ?thesis
      using ck1 a
      by (simp add: toggle_switch_widgets Action_isChecked_def dockAreaWidget_def isClosed_def)
  qed
  from one two show ?thesis by blast
qed

theorem toggle_action_checked_when_checkable_witness:
  "Action_isChecked (setDockArea 2 (Some 3) fresh) 2 \<and>
   dockAreaWidget (setDockArea 2 (Some 3) fresh) 2 = Some 3 \<and>
   \<not> isClosed (setDockArea 2 (Some 3) fresh) 2 \<and>
   toggleViewInternal env0 2 False docked \<noteq> None \<and>
   Action_isChecked (the (toggleViewInternal env0 2 False docked)) 2 =
     (dockAreaWidget (the (toggleViewInternal env0 2 False docked)) 2 \<noteq> None \<and>
      \<not> isClosed (the (toggleViewInternal env0 2 False docked)) 2)"
proof -
  have a: "Action_isCheckable fresh 2" "Action_isCheckable docked 2"
    by (simp_all add: Action_isCheckable_def docked_facts fresh_def CDockWidget_new_def)
  have "\<exists>s'. toggleViewInternal env0 2 False docked = Some s'"
    by (rule toggleViewInternal_returns [OF topLevel_assigned_env0, of _ docked 2 3])
      (simp_all add: docked_facts)
  then have b: "toggleViewInternal env0 2 False docked \<noteq> None \<and>
      toggleViewInternal env0 2 False docked = Some (the (toggleViewInternal env0 2 False docked))"
    by auto
  have c: "dockAreaWidget (setDockArea 2 (Some 3) fresh) 2 = Some 3 \<and>
      \<not> isClosed (setDockArea 2 (Some 3) fresh) 2"
    by (simp add: setDockArea_def Let_def Action_setChecked_def isClosed_def dockAreaWidget_def
        fresh_def CDockWidget_new_def)
  show ?thesis
    using a b c
      toggle_action_checked_when_checkable [of fresh 2 "Some 3" env0 False "the (toggleViewInternal env0 2 False docked)"]
      toggle_action_checked_when_checkable [of docked 2 "Some 3" env0 False "the (toggleViewInternal env0 2 False docked)"]
    by simp
qed

text \<open>
  C2 does not hold for every dock widget. In \<open>ActionModeShow\<close> the action is not
  checkable, so \<open>setChecked(true)\<close> in \<open>setDockArea\<close> leaves it unchecked although the
  widget is assigned and open.
\<close>

theorem toggle_action_unchecked_in_show_mode:
  "Action_isChecked (setDockArea 2 (Some 3) showmode) 2 \<noteq>
     (dockAreaWidget (setDockArea 2 (Some 3) showmode) 2 \<noteq> None \<and>
      \<not> isClosed (setDockArea 2 (Some 3) showmode) 2)"
  by (simp add: showmode_def setToggleViewActionMode_def setDockArea_def Let_def action_defs
      isClosed_def dockAreaWidget_def fresh_def CDockWidget_new_def)

section \<open>The dock container after a transition\<close>

text \<open>
  C3. Whether the dock container that \<open>toggleViewInternal\<close> queries again after the
  transition is non-null where \<open>floatingWidget()\<close> is called on it. It is not when a
  widget that is assigned to no dock area is closed: \<open>hideDockWidget\<close> leaves the widget
  unassigned, \<open>dockContainer()\<close> returns null and the call dereferences it. The state
  below is a widget as its constructor leaves it (open, \<open>DockArea\<close> null), closed by
  \<open>toggleView(false)\<close>.
\<close>

theorem toggleView_close_fresh_widget_null_container:
  "toggleView env0 2 None False fresh = None"
proof -
  have "DockArea (widgets fresh 2) = None" "\<not> Closed (widgets fresh 2)"
    by (simp_all add: fresh_def CDockWidget_new_def)
  then show ?thesis
    by (simp add: toggleView_def toggleViewInternal_close_unassigned)
qed

section \<open>Opening a widget\<close>

text \<open>
  C4, with the action checked when it is checkable. On a layout whose containers report
  assigned top level widgets, an open transition of an unassigned widget returns; its
  calls on floating containers are, in this order, the creation of a floating container
  for the widget, its resize to the size of the widget, its \<open>show\<close> and the refresh of its
  window title; afterwards the widget has the dock area and the floating dock container
  that the constructor made, is not closed, and its toggle view action is checked if it is
  checkable. For a widget assigned to an area \<open>a\<close> of a dock container, with visibility of
  the splitter ancestors closed upwards (a visible splitter has visible ancestors), the
  transition returns and begins with \<open>toggleView(true)\<close> on the area,
  \<open>setCurrentDockWidget\<close> of the widget, \<open>show\<close> of the tab, \<open>show\<close> of every splitter
  ancestor that is not visible, and \<open>show\<close> of the floating container when the dock
  container is floating; afterwards the area is visible, the widget is its current
  widget, the tab is shown, the widget is not closed and the action is checked if it is
  checkable.
\<close>

theorem open_transition_shows_widget:
  assumes wf: "topLevel_assigned E"
  shows
  "(DockArea (widgets s w) = None \<and> allocFloating E s w = (f, c, a) \<longrightarrow>
      (\<exists>s'. toggleViewInternal E w True s = Some s' \<and>
         filter is_floating_call (new_events s s') =
           [Floating_new_call f w, Floating_resize_call f (widgetSize (widgets s w)),
            Floating_show_call f, Floating_updateWindowTitle_call f] \<and>
         dockAreaWidget s' w = Some a \<and> dockContainer s' w = Some c \<and>
         Container_floatingWidget s' c = Some f \<and>
         \<not> isClosed s' w \<and> Action_isChecked s' w = Action_isCheckable s w)) \<and>
   (DockArea (widgets s w) = Some a \<and> areaContainer s a = Some c \<and>
    sorted_wrt (\<lambda>x y. splitterVisible s x \<longrightarrow> splitterVisible s y) (areaSplitters s a) \<longrightarrow>
      (\<exists>s'. toggleViewInternal E w True s = Some s' \<and>
         prefix ([Area_toggleView_call a True, Area_setCurrentDockWidget_call a w, Tab_show_call w]
                 @ map Splitter_show_call (filter (\<lambda>sp. \<not> splitterVisible s sp) (areaSplitters s a))
                 @ (case containerFloating s c of Some g \<Rightarrow> [Floating_show_call g] | None \<Rightarrow> []))
           (new_events s s') \<and>
         areaVisible s' a \<and> areaCurrent s' a = Some w \<and>
         \<not> tabHidden (TabWidget (widgets s' w)) \<and>
         \<not> isClosed s' w \<and> Action_isChecked s' w = Action_isCheckable s w))"
proof -
  have un: "\<exists>s'. toggleViewInternal E w True s = Some s' \<and>
         filter is_floating_call (new_events s s') =
           [Floating_new_call f w, Floating_resize_call f (widgetSize (widgets s w)),
            Floating_show_call f, Floating_updateWindowTitle_call f] \<and>
         dockAreaWidget s' w = Some a \<and> dockContainer s' w = Some c \<and>
         Container_floatingWidget s' c = Some f \<and>
         \<not> isClosed s' w \<and> Action_isChecked s' w = Action_isCheckable s w"
    if none: "DockArea (widgets s w) = None" and al: "allocFloating E s w = (f, c, a)"
  proof -
    have "\<exists>s'. toggleViewInternal E w True s = Some s'"
      by (rule toggleViewInternal_returns [OF wf, of _ s w a]) (simp_all add: none)
    then obtain s' where t: "toggleViewInternal E w True s = Some s'" by blast
    note st = toggleViewInternal_state [OF t]
    from t have "filter is_floating_call (new_events s s') =
           [Floating_new_call f w, Floating_resize_call f (widgetSize (widgets s w)),
            Floating_show_call f, Floating_updateWindowTitle_call f] \<and>
         dockAreaWidget s' w = Some a \<and> dockContainer s' w = Some c \<and>
         Container_floatingWidget s' c = Some f"
    proof (rule toggleViewInternal_shape)
      fix s1 a' c' d
      assume s1: "(if True then showDockWidget E w s else Some (hideDockWidget E w s)) = Some s1"
        and a': "DockArea (widgets s1 w) = Some a'" and c': "areaContainer s1 a' = Some c'"
        and tr: "trace s' = trace s1 @ [Area_toggleDockWidgetView_call a' w True] @ d
          @ (case containerFloating s1 c' of Some f \<Rightarrow> [Floating_updateWindowTitle_call f] | None \<Rightarrow> [])
          @ (if True then [] else [Signal_closed w]) @ [Signal_viewToggled w True]"
        and d: "list_all quiet_ev d"
        and co: "\<And>v. core (widgets s' v) = core (widgets (toggle_switch w True s1) v)"
        and lay: "areaVisible s' = areaVisible s1 \<and> areaCurrent s' = areaCurrent s1 \<and>
          areaMenuOutdated s' = areaMenuOutdated s1 \<and>
          areaContainer s' = areaContainer s1 \<and> containerFloating s' = containerFloating s1"
      from s1 have s1': "s1 = Floating_show f (Floating_resize f (widgetSize (widgets s w))
             (setDockArea w (Some a) (emit (Floating_new_call f w)
                (s\<lparr>areaContainer := (areaContainer s)(a := Some c),
                   containerFloating := (containerFloating s)(c := Some f)\<rparr>))))"
        by (simp add: showDockWidget_unassigned [OF none al])
      have eqs: "a' = a" "c' = c"
        using a' c' unfolding s1'
        by (simp_all add: Floating_show_def Floating_resize_def setDockArea_simps)
      have cf: "containerFloating s1 c = Some f" "areaContainer s1 a = Some c"
        "DockArea (widgets s1 w) = Some a"
        unfolding s1' by (simp_all add: Floating_show_def Floating_resize_def setDockArea_simps)
      have tr1: "filter is_floating_call (drop (length (trace s)) (trace s1)) =
          [Floating_new_call f w, Floating_resize_call f (widgetSize (widgets s w)), Floating_show_call f]"
        unfolding s1' by (simp add: Floating_show_def Floating_resize_def setDockArea_simps)
      have len: "length (trace s) \<le> length (trace s1)"
        unfolding s1' by (simp add: Floating_show_def Floating_resize_def setDockArea_simps)
      have ev: "filter is_floating_call (new_events s s') =
           [Floating_new_call f w, Floating_resize_call f (widgetSize (widgets s w)),
            Floating_show_call f, Floating_updateWindowTitle_call f]"
        using len tr1
        by (simp add: new_events_def tr eqs cf quiet_no_floating [OF d])
      have "DockArea (widgets s' w) = DockArea (widgets (toggle_switch w True s1) w)"
        using co [of w] by (rule core_fields)
      then have da: "DockArea (widgets s' w) = Some a"
        by (simp add: toggle_switch_widgets cf)
      show ?thesis
        using ev da lay cf
        by (simp add: dockAreaWidget_def dockContainer_def Area_dockContainer_def
            Container_floatingWidget_def)
    qed
    with t st show ?thesis
      by (auto simp add: isClosed_def Action_isChecked_def Action_isCheckable_def)
  qed
  have as: "\<exists>s'. toggleViewInternal E w True s = Some s' \<and>
         prefix ([Area_toggleView_call a True, Area_setCurrentDockWidget_call a w, Tab_show_call w]
                 @ map Splitter_show_call (filter (\<lambda>sp. \<not> splitterVisible s sp) (areaSplitters s a))
                 @ (case containerFloating s c of Some g \<Rightarrow> [Floating_show_call g] | None \<Rightarrow> []))
           (new_events s s') \<and>
         areaVisible s' a \<and> areaCurrent s' a = Some w \<and>
         \<not> tabHidden (TabWidget (widgets s' w)) \<and>
         \<not> isClosed s' w \<and> Action_isChecked s' w = Action_isCheckable s w"
    if some: "DockArea (widgets s w) = Some a" and ac: "areaContainer s a = Some c"
      and up: "sorted_wrt (\<lambda>x y. splitterVisible s x \<longrightarrow> splitterVisible s y) (areaSplitters s a)"
  proof -
    have "\<exists>s'. toggleViewInternal E w True s = Some s'"
      by (rule toggleViewInternal_returns [OF wf, of _ s w a]) (simp_all add: some ac)
    then obtain s' where t: "toggleViewInternal E w True s = Some s'" by blast
    note st = toggleViewInternal_state [OF t]
    note tw = takeWhile_hidden_eq_filter [OF up]
    from t have "prefix ([Area_toggleView_call a True, Area_setCurrentDockWidget_call a w, Tab_show_call w]
                 @ map Splitter_show_call (filter (\<lambda>sp. \<not> splitterVisible s sp) (areaSplitters s a))
                 @ (case containerFloating s c of Some g \<Rightarrow> [Floating_show_call g] | None \<Rightarrow> []))
           (new_events s s') \<and>
         areaVisible s' a \<and> areaCurrent s' a = Some w \<and>
         \<not> tabHidden (TabWidget (widgets s' w))"
    proof (rule toggleViewInternal_shape)
      fix s1 a' c' d
      assume s1: "(if True then showDockWidget E w s else Some (hideDockWidget E w s)) = Some s1"
        and tr: "trace s' = trace s1 @ [Area_toggleDockWidgetView_call a' w True] @ d
          @ (case containerFloating s1 c' of Some f \<Rightarrow> [Floating_updateWindowTitle_call f] | None \<Rightarrow> [])
          @ (if True then [] else [Signal_closed w]) @ [Signal_viewToggled w True]"
        and co: "\<And>v. core (widgets s' v) = core (widgets (toggle_switch w True s1) v)"
        and lay: "areaVisible s' = areaVisible s1 \<and> areaCurrent s' = areaCurrent s1 \<and>
          areaMenuOutdated s' = areaMenuOutdated s1 \<and>
          areaContainer s' = areaContainer s1 \<and> containerFloating s' = containerFloating s1"
      define d1 where "d1 = [Area_toggleView_call a True, Area_setCurrentDockWidget_call a w, Tab_show_call w]
                 @ map Splitter_show_call (filter (\<lambda>sp. \<not> splitterVisible s sp) (areaSplitters s a))
                 @ (case containerFloating s c of Some g \<Rightarrow> [Floating_show_call g] | None \<Rightarrow> [])"
      from s1 have s1': "s1 = s\<lparr>widgets := (widgets s)(w := (widgets s w)\<lparr>TabWidget := (TabWidget (widgets s w))\<lparr>tabHidden := False\<rparr>\<rparr>),
             areaVisible := (areaVisible s)(a := True),
             areaCurrent := (areaCurrent s)(a := Some w),
             trace := trace s @ d1\<rparr>"
        by (simp add: showDockWidget_assigned [OF some ac] tw d1_def)
      have f1: "trace s1 = trace s @ d1" "areaVisible s1 a" "areaCurrent s1 a = Some w"
        "\<not> tabHidden (TabWidget (widgets s1 w))"
        unfolding s1' by simp_all
      have "new_events s s' = d1 @ ([Area_toggleDockWidgetView_call a' w True] @ d
          @ (case containerFloating s1 c' of Some f \<Rightarrow> [Floating_updateWindowTitle_call f] | None \<Rightarrow> [])
          @ [Signal_viewToggled w True])"
        by (simp add: new_events_def tr f1(1))
      then have pre: "prefix d1 (new_events s s')" by simp
      have "TabWidget (widgets s' w) = TabWidget (widgets (toggle_switch w True s1) w)"
        using co [of w] by (rule core_fields)
      then have "\<not> tabHidden (TabWidget (widgets s' w))"
        using f1(4) by (simp add: toggle_switch_widgets)
      with pre lay f1 show ?thesis by (simp add: d1_def)
    qed
    with t st show ?thesis
      by (auto simp add: isClosed_def Action_isChecked_def Action_isCheckable_def)
  qed
  from un as show ?thesis by blast
qed

theorem open_transition_shows_widget_witness:
  "(\<exists>s'. toggleViewInternal env0 2 True unassigned = Some s' \<and>
         filter is_floating_call (new_events unassigned s') =
           [Floating_new_call 7 2, Floating_resize_call 7 (640, 480),
            Floating_show_call 7, Floating_updateWindowTitle_call 7] \<and>
         dockAreaWidget s' 2 = Some 3 \<and> dockContainer s' 2 = Some 5 \<and>
         Container_floatingWidget s' 5 = Some 7 \<and>
         \<not> isClosed s' 2 \<and> Action_isChecked s' 2) \<and>
   (\<exists>s'. toggleViewInternal env0 2 True docked = Some s' \<and>
         prefix [Area_toggleView_call 3 True, Area_setCurrentDockWidget_call 3 2, Tab_show_call 2,
                 Splitter_show_call 11]
           (new_events docked s') \<and>
         areaVisible s' 3 \<and> areaCurrent s' 3 = Some 2 \<and>
         \<not> tabHidden (TabWidget (widgets s' 2)) \<and>
         \<not> isClosed s' 2 \<and> Action_isChecked s' 2)"
proof -
  have p1: "\<exists>s'. toggleViewInternal env0 2 True unassigned = Some s' \<and>
         filter is_floating_call (new_events unassigned s') =
           [Floating_new_call 7 2, Floating_resize_call 7 (640, 480),
            Floating_show_call 7, Floating_updateWindowTitle_call 7] \<and>
         dockAreaWidget s' 2 = Some 3 \<and> dockContainer s' 2 = Some 5 \<and>
         Container_floatingWidget s' 5 = Some 7 \<and>
         \<not> isClosed s' 2 \<and> Action_isChecked s' 2"
    using open_transition_shows_widget [OF topLevel_assigned_env0, of unassigned 2 7 5 3]
      unassigned_facts docked_layout(4,5)
    by (simp add: Action_isCheckable_def)
  have p2: "\<exists>s'. toggleViewInternal env0 2 True docked = Some s' \<and>
         prefix [Area_toggleView_call 3 True, Area_setCurrentDockWidget_call 3 2, Tab_show_call 2,
                 Splitter_show_call 11]
           (new_events docked s') \<and>
         areaVisible s' 3 \<and> areaCurrent s' 3 = Some 2 \<and>
         \<not> tabHidden (TabWidget (widgets s' 2)) \<and>
         \<not> isClosed s' 2 \<and> Action_isChecked s' 2"
    using open_transition_shows_widget [OF topLevel_assigned_env0, of docked 2 7 5 3]
      docked_facts docked_layout
    by (simp add: Action_isCheckable_def)
  from p1 p2 show ?thesis by blast
qed

text \<open>
  C4 does not hold with a checked toggle view action for every widget. The widget below
  is in \<open>ActionModeShow\<close>, unassigned and closed; the open transition returns and leaves it
  open, and its toggle view action, which is not checkable, is not checked.
\<close>

theorem open_transition_show_mode_unchecked:
  "DockArea (widgets showmode_unassigned 2) = None \<and> Closed (widgets showmode_unassigned 2) \<and>
   toggleViewInternal env0 2 True showmode_unassigned \<noteq> None \<and>
   \<not> isClosed (the (toggleViewInternal env0 2 True showmode_unassigned)) 2 \<and>
   \<not> Action_isChecked (the (toggleViewInternal env0 2 True showmode_unassigned)) 2"
proof -
  have "\<exists>s'. toggleViewInternal env0 2 True showmode_unassigned = Some s'"
    by (rule toggleViewInternal_returns [OF topLevel_assigned_env0, of _ showmode_unassigned 2 3])
      (simp_all add: showmode_unassigned_facts)
  then obtain s' where t: "toggleViewInternal env0 2 True showmode_unassigned = Some s'" by blast
  from toggleViewInternal_state [OF t] showmode_unassigned_facts t show ?thesis
    by (simp add: Action_isChecked_def isClosed_def)
qed

section \<open>Closing a widget\<close>

text \<open>
  C5. For a widget assigned to an area \<open>a\<close>, \<open>hideDockWidget\<close> hides the tab and then, when
  \<open>nextOpenDockWidget\<close> of the area returns a widget \<open>n\<close>, calls \<open>setCurrentDockWidget(n)\<close>,
  which leaves \<open>n\<close> the current widget of the area and the visibility of the area
  unchanged; when it returns null, it calls \<open>hideAreaWithNoVisibleContent\<close>, which leaves
  the area hidden; these two calls are all its events. When the area sits in a dock
  container and the containers report assigned top level widgets, the whole close
  transition returns, with the tab hidden, the widget closed, those two events first, and
  in the first case no \<open>hideAreaWithNoVisibleContent\<close> call and the area as visible as
  before and with current widget \<open>n\<close>, in the second case no \<open>setCurrentDockWidget\<close> call
  and the area hidden.
\<close>

theorem close_transition_updates_area:
  assumes some: "DockArea (widgets s w) = Some a"
  shows
  "tabHidden (TabWidget (widgets (hideDockWidget E w s) w)) \<and>
   (case nextOpenDockWidget E (Tab_hide w s) a w of
      Some n \<Rightarrow>
        new_events s (hideDockWidget E w s) = [Tab_hide_call w, Area_setCurrentDockWidget_call a n] \<and>
        areaCurrent (hideDockWidget E w s) a = Some n \<and>
        areaVisible (hideDockWidget E w s) a = areaVisible s a
    | None \<Rightarrow>
        new_events s (hideDockWidget E w s) =
          [Tab_hide_call w, Area_hideAreaWithNoVisibleContent_call a] \<and>
        \<not> areaVisible (hideDockWidget E w s) a) \<and>
   (topLevel_assigned E \<and> areaContainer s a = Some c \<longrightarrow>
      (\<exists>s'. toggleViewInternal E w False s = Some s' \<and>
         tabHidden (TabWidget (widgets s' w)) \<and> isClosed s' w \<and>
         (case nextOpenDockWidget E (Tab_hide w s) a w of
            Some n \<Rightarrow>
              prefix [Tab_hide_call w, Area_setCurrentDockWidget_call a n] (new_events s s') \<and>
              filter is_hideArea (new_events s s') = [] \<and>
              areaCurrent s' a = Some n \<and> areaVisible s' a = areaVisible s a
          | None \<Rightarrow>
              prefix [Tab_hide_call w, Area_hideAreaWithNoVisibleContent_call a] (new_events s s') \<and>
              filter is_setCurrentDockWidget (new_events s s') = [] \<and>
              \<not> areaVisible s' a)))"
proof -
  define s1 where "s1 = hideDockWidget E w s"
  have s1': "s1 = (case nextOpenDockWidget E (Tab_hide w s) a w of
        Some n \<Rightarrow> Area_setCurrentDockWidget a n (Tab_hide w s)
      | None \<Rightarrow> Area_hideAreaWithNoVisibleContent a (Tab_hide w s))"
    by (simp add: s1_def hideDockWidget_assigned [OF some])
  have tab1: "tabHidden (TabWidget (widgets s1 w))"
    unfolding s1'
    by (simp add: Tab_hide_def Area_setCurrentDockWidget_def
        Area_hideAreaWithNoVisibleContent_def split: option.splits)
  have none1: "trace s1 = trace s @ [Tab_hide_call w, Area_hideAreaWithNoVisibleContent_call a] \<and>
      \<not> areaVisible s1 a"
    if "nextOpenDockWidget E (Tab_hide w s) a w = None"
    using that unfolding s1' by (simp add: Tab_hide_def Area_hideAreaWithNoVisibleContent_def)
  have some1: "trace s1 = trace s @ [Tab_hide_call w, Area_setCurrentDockWidget_call a n] \<and>
      areaVisible s1 a = areaVisible s a \<and> areaCurrent s1 a = Some n"
    if "nextOpenDockWidget E (Tab_hide w s) a w = Some n" for n
    using that unfolding s1' by (simp add: Tab_hide_def Area_setCurrentDockWidget_def)
  have hide: "case nextOpenDockWidget E (Tab_hide w s) a w of
      Some n \<Rightarrow>
        new_events s s1 = [Tab_hide_call w, Area_setCurrentDockWidget_call a n] \<and>
        areaCurrent s1 a = Some n \<and> areaVisible s1 a = areaVisible s a
    | None \<Rightarrow>
        new_events s s1 = [Tab_hide_call w, Area_hideAreaWithNoVisibleContent_call a] \<and>
        \<not> areaVisible s1 a"
    using none1 some1 by (simp add: new_events_def split: option.splits)
  have whole: "\<exists>s'. toggleViewInternal E w False s = Some s' \<and>
         tabHidden (TabWidget (widgets s' w)) \<and> isClosed s' w \<and>
         (case nextOpenDockWidget E (Tab_hide w s) a w of
            Some n \<Rightarrow>
              prefix [Tab_hide_call w, Area_setCurrentDockWidget_call a n] (new_events s s') \<and>
              filter is_hideArea (new_events s s') = [] \<and>
              areaCurrent s' a = Some n \<and> areaVisible s' a = areaVisible s a
          | None \<Rightarrow>
              prefix [Tab_hide_call w, Area_hideAreaWithNoVisibleContent_call a] (new_events s s') \<and>
              filter is_setCurrentDockWidget (new_events s s') = [] \<and>
              \<not> areaVisible s' a)"
    if wf: "topLevel_assigned E" and ac: "areaContainer s a = Some c"
  proof -
    have "\<exists>s'. toggleViewInternal E w False s = Some s'"
      by (rule toggleViewInternal_returns [OF wf, of _ s w a]) (simp_all add: some ac)
    then obtain s' where t: "toggleViewInternal E w False s = Some s'" by blast
    note st = toggleViewInternal_state [OF t]
    from t have "tabHidden (TabWidget (widgets s' w)) \<and>
       (case nextOpenDockWidget E (Tab_hide w s) a w of
          Some n \<Rightarrow>
            prefix [Tab_hide_call w, Area_setCurrentDockWidget_call a n] (new_events s s') \<and>
            filter is_hideArea (new_events s s') = [] \<and>
            areaCurrent s' a = Some n \<and> areaVisible s' a = areaVisible s a
        | None \<Rightarrow>
            prefix [Tab_hide_call w, Area_hideAreaWithNoVisibleContent_call a] (new_events s s') \<and>
            filter is_setCurrentDockWidget (new_events s s') = [] \<and>
            \<not> areaVisible s' a)"
    proof (rule toggleViewInternal_shape)
      fix s2 a' c' d
      assume s2: "(if False then showDockWidget E w s else Some (hideDockWidget E w s)) = Some s2"
        and tr: "trace s' = trace s2 @ [Area_toggleDockWidgetView_call a' w False] @ d
            @ (case containerFloating s2 c' of Some f \<Rightarrow> [Floating_updateWindowTitle_call f] | None \<Rightarrow> [])
            @ (if False then [] else [Signal_closed w]) @ [Signal_viewToggled w False]"
        and d: "list_all quiet_ev d"
        and co: "\<And>v. core (widgets s' v) = core (widgets (toggle_switch w False s2) v)"
        and lay: "areaVisible s' = areaVisible s2 \<and> areaCurrent s' = areaCurrent s2 \<and>
            areaMenuOutdated s' = areaMenuOutdated s2 \<and>
            areaContainer s' = areaContainer s2 \<and> containerFloating s' = containerFloating s2"
      from s2 have eq: "s2 = s1" by (simp add: s1_def)
      have "TabWidget (widgets s' w) = TabWidget (widgets (toggle_switch w False s1) w)"
        using co [of w] unfolding eq by (rule core_fields)
      then have tab: "tabHidden (TabWidget (widgets s' w))"
        using tab1 by (simp add: toggle_switch_widgets)
      show ?thesis
      proof (cases "nextOpenDockWidget E (Tab_hide w s) a w")
        case None
        note f1 = none1 [OF None]
        have ne: "new_events s s' = [Tab_hide_call w, Area_hideAreaWithNoVisibleContent_call a] @
            ([Area_toggleDockWidgetView_call a' w False] @ d
            @ (case containerFloating s1 c' of Some f \<Rightarrow> [Floating_updateWindowTitle_call f] | None \<Rightarrow> [])
            @ [Signal_closed w, Signal_viewToggled w False])"
          using f1 by (simp add: new_events_def tr eq)
        have "prefix [Tab_hide_call w, Area_hideAreaWithNoVisibleContent_call a] (new_events s s')"
          unfolding ne by (rule prefixI) simp
        moreover have "filter is_setCurrentDockWidget (new_events s s') = []"
          unfolding ne by (simp add: quiet_no_setCurrent [OF d] split: option.splits)
        ultimately show ?thesis using None tab lay f1 by (simp add: eq)
      next
        case (Some n)
        note f1 = some1 [OF Some]
        have ne: "new_events s s' = [Tab_hide_call w, Area_setCurrentDockWidget_call a n] @
            ([Area_toggleDockWidgetView_call a' w False] @ d
            @ (case containerFloating s1 c' of Some f \<Rightarrow> [Floating_updateWindowTitle_call f] | None \<Rightarrow> [])
            @ [Signal_closed w, Signal_viewToggled w False])"
          using f1 by (simp add: new_events_def tr eq)
        have "prefix [Tab_hide_call w, Area_setCurrentDockWidget_call a n] (new_events s s')"
          unfolding ne by (rule prefixI) simp
        moreover have "filter is_hideArea (new_events s s') = []"
          unfolding ne by (simp add: quiet_no_hideArea [OF d] split: option.splits)
        ultimately show ?thesis using Some tab lay f1 by (simp add: eq)
      qed
    qed
    with t st show ?thesis by (auto simp add: isClosed_def)
  qed
  from tab1 hide whole show ?thesis unfolding s1_def by blast
qed

theorem close_transition_updates_area_witness:
  "tabHidden (TabWidget (widgets (hideDockWidget env0 2 docked) 2)) \<and>
   new_events docked (hideDockWidget env0 2 docked) =
     [Tab_hide_call 2, Area_hideAreaWithNoVisibleContent_call 3] \<and>
   \<not> areaVisible (hideDockWidget env0 2 docked) 3 \<and>
   new_events docked (hideDockWidget env1 2 docked) =
     [Tab_hide_call 2, Area_setCurrentDockWidget_call 3 4] \<and>
   areaCurrent (hideDockWidget env1 2 docked) 3 = Some 4 \<and>
   areaVisible (hideDockWidget env1 2 docked) 3 \<and>
   (\<exists>s'. toggleViewInternal env0 2 False docked = Some s' \<and>
     tabHidden (TabWidget (widgets s' 2)) \<and> isClosed s' 2 \<and>
     prefix [Tab_hide_call 2, Area_hideAreaWithNoVisibleContent_call 3] (new_events docked s') \<and>
     filter is_setCurrentDockWidget (new_events docked s') = [] \<and>
     \<not> areaVisible s' 3) \<and>
   (\<exists>s'. toggleViewInternal env1 2 False docked = Some s' \<and>
     tabHidden (TabWidget (widgets s' 2)) \<and> isClosed s' 2 \<and>
     prefix [Tab_hide_call 2, Area_setCurrentDockWidget_call 3 4] (new_events docked s') \<and>
     filter is_hideArea (new_events docked s') = [] \<and>
     areaCurrent s' 3 = Some 4 \<and> areaVisible s' 3)"
proof -
  have n: "nextOpenDockWidget env0 s a w = None" "nextOpenDockWidget env1 s a w = Some 4" for s a w
    by (simp_all add: env0_def env1_def)
  note T0 = close_transition_updates_area [OF docked_facts(1), of env0 5]
  note T1 = close_transition_updates_area [OF docked_facts(1), of env1 5]
  have p0: "tabHidden (TabWidget (widgets (hideDockWidget env0 2 docked) 2)) \<and>
     new_events docked (hideDockWidget env0 2 docked) =
       [Tab_hide_call 2, Area_hideAreaWithNoVisibleContent_call 3] \<and>
     \<not> areaVisible (hideDockWidget env0 2 docked) 3"
    using T0 by (simp add: n)
  have p0': "new_events docked (hideDockWidget env1 2 docked) =
       [Tab_hide_call 2, Area_setCurrentDockWidget_call 3 4] \<and>
     areaCurrent (hideDockWidget env1 2 docked) 3 = Some 4 \<and>
     areaVisible (hideDockWidget env1 2 docked) 3"
    using T1 docked_facts(7) by (simp add: n)
  have p1: "\<exists>s'. toggleViewInternal env0 2 False docked = Some s' \<and>
     tabHidden (TabWidget (widgets s' 2)) \<and> isClosed s' 2 \<and>
     prefix [Tab_hide_call 2, Area_hideAreaWithNoVisibleContent_call 3] (new_events docked s') \<and>
     filter is_setCurrentDockWidget (new_events docked s') = [] \<and>
     \<not> areaVisible s' 3"
    using T0 topLevel_assigned_env0 docked_facts(3) by (simp add: n)
  have p2: "\<exists>s'. toggleViewInternal env1 2 False docked = Some s' \<and>
     tabHidden (TabWidget (widgets s' 2)) \<and> isClosed s' 2 \<and>
     prefix [Tab_hide_call 2, Area_setCurrentDockWidget_call 3 4] (new_events docked s') \<and>
     filter is_hideArea (new_events docked s') = [] \<and>
     areaCurrent s' 3 = Some 4 \<and> areaVisible s' 3"
    using T1 topLevel_assigned_env1 docked_facts(3,7) by (simp add: n)
  from p0 p0' p1 p2 show ?thesis by blast
qed

section \<open>Releasing a widget from its area\<close>

text \<open>
  C6. After \<open>flagAsUnassigned\<close>, from any state: the widget is closed, its dock area
  reference is null, its toggle view action is unchecked, the widget is hidden, its parent
  is the dock manager held in \<open>DockManager\<close>, and the parent of its tab is the widget
  itself.
\<close>

theorem flagAsUnassigned_leaves_unassigned:
  "isClosed (flagAsUnassigned w s) w \<and>
   dockAreaWidget (flagAsUnassigned w s) w = None \<and>
   \<not> Action_isChecked (flagAsUnassigned w s) w \<and>
   hidden (widgets (flagAsUnassigned w s) w) \<and>
   parentObj (widgets (flagAsUnassigned w s) w) = map_option DockManagerObj (DockManager (widgets s w)) \<and>
   tabParent (TabWidget (widgets (flagAsUnassigned w s) w)) = Some (DockWidgetObj w)"
  by (simp add: flagAsUnassigned_def isClosed_def dockAreaWidget_def setDockArea_def
      QWidget_setParent_def QWidget_setVisible_def Tab_setParent_def action_defs Let_def)

theorem flagAsUnassigned_leaves_unassigned_witness:
  "isClosed unassigned 2 \<and> dockAreaWidget unassigned 2 = None \<and>
   \<not> Action_isChecked unassigned 2 \<and> hidden (widgets unassigned 2) \<and>
   parentObj (widgets unassigned 2) = Some (DockManagerObj 9) \<and>
   tabParent (TabWidget (widgets unassigned 2)) = Some (DockWidgetObj 2)"
  using flagAsUnassigned_leaves_unassigned [of 2 "setDockManager 2 (Some 9) fresh"]
  by (simp add: unassigned_def setDockManager_def)

section \<open>Synchronising the toggle view action\<close>

text \<open>
  C7. \<open>setToggleViewActionChecked\<close> appends no event at all: the action emits neither
  \<open>toggled\<close> nor \<open>triggered\<close> while its checked state is set, whereas \<open>setChecked\<close>
  on an action whose signals are not blocked emits \<open>toggled\<close>. A run of
  \<open>toggleViewInternal\<close> that returns contains no \<open>triggered\<close> signal, so \<open>toggleView\<close>
  is not entered again through the action; when the widget is assigned to an area, or is
  being closed, the run contains no signal of the action at all.
\<close>

theorem toggle_action_sync_is_silent:
  "new_events s (setToggleViewActionChecked w Checked s) = [] \<and>
   Action_isChecked (setToggleViewActionChecked w Checked s) w = (Action_isCheckable s w \<and> Checked) \<and>
   (toggleViewInternal E w Open s = Some s' \<longrightarrow> filter is_triggered (new_events s s') = []) \<and>
   (toggleViewInternal E w Open s = Some s' \<and> (DockArea (widgets s w) \<noteq> None \<or> \<not> Open) \<longrightarrow>
      filter is_action_signal (new_events s s') = []) \<and>
   (Action_isCheckable s w \<and> Action_isChecked s w \<noteq> Checked \<and>
    \<not> signalsBlocked (ToggleViewAction (widgets s w)) \<longrightarrow>
      new_events s (Action_setChecked w Checked s) = [Action_toggled w Checked])"
proof -
  have a: "new_events s (setToggleViewActionChecked w Checked s) = []"
    by (simp add: setToggleViewActionChecked_def action_defs Let_def new_events_def)
  have b: "Action_isChecked (setToggleViewActionChecked w Checked s) w =
      (Action_isCheckable s w \<and> Checked)"
    by (auto simp add: setToggleViewActionChecked_def action_defs Let_def)
  have c: "filter is_triggered (new_events s s') = [] \<and>
      (DockArea (widgets s w) \<noteq> None \<or> \<not> Open \<longrightarrow> filter is_action_signal (new_events s s') = [])"
    if t: "toggleViewInternal E w Open s = Some s'"
    using t
  proof (rule toggleViewInternal_shape)
    fix s1 a c d
    assume s1: "(if Open then showDockWidget E w s else Some (hideDockWidget E w s)) = Some s1"
      and tr: "trace s' = trace s1 @ [Area_toggleDockWidgetView_call a w Open] @ d
        @ (case containerFloating s1 c of Some f \<Rightarrow> [Floating_updateWindowTitle_call f] | None \<Rightarrow> [])
        @ (if Open then [] else [Signal_closed w]) @ [Signal_viewToggled w Open]"
      and d: "list_all quiet_ev d"
    from show_hide_events [OF s1] obtain d1 where
      d1: "trace s1 = trace s @ d1" "list_all (\<lambda>e. \<not> is_notification e) d1" by blast
    have n1: "filter is_triggered d1 = []"
    proof (rule filter_none [OF d1(2)])
      fix e show "\<not> is_notification e \<Longrightarrow> \<not> is_triggered e" by (cases e) simp_all
    qed
    have n2: "filter is_triggered d = []"
    proof (rule filter_none [OF d])
      fix e show "quiet_ev e \<Longrightarrow> \<not> is_triggered e" by (cases e) simp_all
    qed
    have m2: "filter is_action_signal d = []"
    proof (rule filter_none [OF d])
      fix e show "quiet_ev e \<Longrightarrow> \<not> is_action_signal e" by (cases e) simp_all
    qed
    have one: "filter is_triggered (new_events s s') = []"
      by (simp add: new_events_def tr d1(1) n1 n2 split: option.splits)
    have two: "filter is_action_signal (new_events s s') = []"
      if "DockArea (widgets s w) \<noteq> None \<or> \<not> Open"
    proof -
      from show_hide_assigned_events [OF s1 that] obtain d2 where
        d2: "trace s1 = trace s @ d2" "list_all (\<lambda>e. \<not> is_action_signal e) d2" by blast
      have "filter is_action_signal d2 = []"
        by (rule filter_none [OF d2(2)])
      then show ?thesis
        by (simp add: new_events_def tr d2(1) m2 split: option.splits)
    qed
    from one two show ?thesis by blast
  qed
  have e: "new_events s (Action_setChecked w Checked s) = [Action_toggled w Checked]"
    if "Action_isCheckable s w" "Action_isChecked s w \<noteq> Checked"
      "\<not> signalsBlocked (ToggleViewAction (widgets s w))"
    using that by (auto simp add: action_defs Let_def new_events_def)
  from a b c e show ?thesis by blast
qed

theorem toggle_action_sync_is_silent_witness:
  "new_events docked (setToggleViewActionChecked 2 False docked) = [] \<and>
   \<not> Action_isChecked (setToggleViewActionChecked 2 False docked) 2 \<and>
   toggleViewInternal env0 2 False docked \<noteq> None \<and>
   filter is_triggered (new_events docked (the (toggleViewInternal env0 2 False docked))) = [] \<and>
   filter is_action_signal (new_events docked (the (toggleViewInternal env0 2 False docked))) = [] \<and>
   new_events docked (Action_setChecked 2 False docked) = [Action_toggled 2 False]"
proof -
  have "\<exists>s'. toggleViewInternal env0 2 False docked = Some s'"
    by (rule toggleViewInternal_returns [OF topLevel_assigned_env0, of _ docked 2 3])
      (simp_all add: docked_facts)
  then have t1: "toggleViewInternal env0 2 False docked \<noteq> None \<and>
      toggleViewInternal env0 2 False docked = Some (the (toggleViewInternal env0 2 False docked))"
    by (rule returns_the)
  have k: "Action_isCheckable docked 2" "Action_isChecked docked 2"
    "\<not> signalsBlocked (ToggleViewAction (widgets docked 2))"
    by (simp_all add: Action_isCheckable_def Action_isChecked_def docked_def setDockArea_simps
        fresh_def CDockWidget_new_def)
  show ?thesis
    using t1 k docked_facts
      toggle_action_sync_is_silent [of docked 2 False env0 False
        "the (toggleViewInternal env0 2 False docked)"]
    by simp
qed

section \<open>Title propagation\<close>

text \<open>
  C8. A \<open>WindowTitleChange\<close> event sets the text of the tab and the text of the toggle
  view action to the window title, marks the title bar menu of the assigned area as
  outdated, and emits \<open>titleChanged\<close> with that title exactly once; so does
  \<open>setWindowTitle\<close> with a new title.
\<close>

theorem event_WindowTitleChange_propagates:
  "tabText (TabWidget (widgets (event w WindowTitleChange s) w)) = windowTitle (widgets s w) \<and>
   actionText (ToggleViewAction (widgets (event w WindowTitleChange s) w)) = windowTitle (widgets s w) \<and>
   (DockArea (widgets s w) = Some a \<longrightarrow> areaMenuOutdated (event w WindowTitleChange s) a) \<and>
   filter is_titleChanged (new_events s (event w WindowTitleChange s)) =
     [Signal_titleChanged w (windowTitle (widgets s w))] \<and>
   (t \<noteq> windowTitle (widgets s w) \<longrightarrow>
      tabText (TabWidget (widgets (setWindowTitle w t s) w)) = t \<and>
      actionText (ToggleViewAction (widgets (setWindowTitle w t s) w)) = t \<and>
      filter is_titleChanged (new_events s (setWindowTitle w t s)) = [Signal_titleChanged w t])"
  by (simp add: event_def setWindowTitle_def Let_def Tab_setText_def Action_setText_def
      Area_markTitleBarMenuOutdated_def new_events_def split: option.splits)

theorem event_WindowTitleChange_propagates_witness:
  "tabText (TabWidget (widgets (event 2 WindowTitleChange docked) 2)) = ''Logs'' \<and>
   actionText (ToggleViewAction (widgets (event 2 WindowTitleChange docked) 2)) = ''Logs'' \<and>
   areaMenuOutdated (event 2 WindowTitleChange docked) 3 \<and>
   filter is_titleChanged (new_events docked (event 2 WindowTitleChange docked)) =
     [Signal_titleChanged 2 ''Logs''] \<and>
   tabText (TabWidget (widgets (setWindowTitle 2 ''Build'' docked) 2)) = ''Build'' \<and>
   actionText (ToggleViewAction (widgets (setWindowTitle 2 ''Build'' docked) 2)) = ''Build'' \<and>
   filter is_titleChanged (new_events docked (setWindowTitle 2 ''Build'' docked)) =
     [Signal_titleChanged 2 ''Build'']"
proof -
  have a: "DockArea (widgets docked 2) = Some 3 \<and> windowTitle (widgets docked 2) = ''Logs''"
    by (simp add: docked_def fresh_def CDockWidget_new_def setDockArea_def Action_setChecked_def
        isClosed_def Let_def)
  show ?thesis
    using a event_WindowTitleChange_propagates [of 2 docked 3 "''Build''"]
    by simp
qed

section \<open>Tool bar style\<close>

text \<open>
  C9. For a widget with a tool bar: when the icon size and the button style that
  \<open>setToolbarFloatingStyle\<close> selects for the floating flag are the ones the tool bar
  already has, the call changes nothing and makes no \<open>setIconSize\<close> or
  \<open>setToolButtonStyle\<close> call.
\<close>

theorem setToolbarFloatingStyle_same_style_noop:
  assumes "ToolBar (widgets s w) = Some tb"
    and "iconSize tb = (if Floating then ToolBarIconSizeFloating (widgets s w)
                        else ToolBarIconSizeDocked (widgets s w))"
    and "toolButtonStyle tb = (if Floating then ToolBarStyleFloating (widgets s w)
                               else ToolBarStyleDocked (widgets s w))"
  shows "setToolbarFloatingStyle w Floating s = s \<and>
         filter is_toolbar_call (new_events s (setToolbarFloatingStyle w Floating s)) = []"
  using assms by (simp add: setToolbarFloatingStyle_def Let_def new_events_def)

theorem setToolbarFloatingStyle_same_style_noop_witness:
  "setToolbarFloatingStyle 2 False (createDefaultToolBar 2 fresh) = createDefaultToolBar 2 fresh \<and>
   filter is_toolbar_call (new_events (createDefaultToolBar 2 fresh)
     (setToolbarFloatingStyle 2 False (createDefaultToolBar 2 fresh))) = []"
  using setToolbarFloatingStyle_same_style_noop
    [of "createDefaultToolBar 2 fresh" 2 "\<lparr>iconSize = (16, 16), toolButtonStyle = ToolButtonIconOnly\<rparr>" False]
  by (simp add: createDefaultToolBar_def setupToolBar_def fresh_def CDockWidget_new_def
      ToolBar_setIconSize_def Let_def)

section \<open>Top level changes\<close>

text \<open>
  C10. \<open>emitTopLevelChanged(f)\<close> updates the cached top-level flag and emits
  \<open>topLevelChanged\<close>, once, when \<open>f\<close> differs from the cached flag, and does nothing
  when \<open>f\<close> equals it; a second call with the same value changes nothing; and
  \<open>emitTopLevelEventForWidget\<close> for a widget whose cached flag already is the requested
  value only updates the title bar of its area and emits no \<open>topLevelChanged\<close>.
\<close>

theorem emitTopLevelChanged_only_on_change:
  "(Floating \<noteq> IsFloatingTopLevel (widgets s w) \<longrightarrow>
      IsFloatingTopLevel (widgets (emitTopLevelChanged w Floating s) w) = Floating \<and>
      filter is_topLevelChanged (new_events s (emitTopLevelChanged w Floating s)) =
        [Signal_topLevelChanged w Floating]) \<and>
   (Floating = IsFloatingTopLevel (widgets s w) \<longrightarrow> emitTopLevelChanged w Floating s = s) \<and>
   emitTopLevelChanged w Floating (emitTopLevelChanged w Floating s) =
     emitTopLevelChanged w Floating s \<and>
   (Floating = IsFloatingTopLevel (widgets s w) \<and> DockArea (widgets s w) = Some a \<longrightarrow>
      emitTopLevelEventForWidget (Some w) Floating s = Some (Area_updateTitleBarVisibility a s) \<and>
      filter is_topLevelChanged (new_events s (Area_updateTitleBarVisibility a s)) = [])"
proof -
  define s1 where "s1 = update_widget w (\<lambda>d. d\<lparr>IsFloatingTopLevel := Floating\<rparr>) s"
  have flag: "IsFloatingTopLevel (widgets (emitTopLevelChanged w Floating s) w) = Floating"
    by (simp add: emitTopLevelChanged_def Let_def emit_topLevelChanged_flag)
  have ev: "filter is_topLevelChanged (new_events s (emitTopLevelChanged w Floating s)) =
        [Signal_topLevelChanged w Floating]" if "Floating \<noteq> IsFloatingTopLevel (widgets s w)"
  proof -
    have "trace s1 = trace s" by (simp add: s1_def)
    then have "new_events s (emit_topLevelChanged w Floating s1) =
        new_events s1 (emit_topLevelChanged w Floating s1)"
      by (simp add: new_events_def)
    then show ?thesis
      using that emit_topLevelChanged_events [of s1 w Floating]
      by (simp add: emitTopLevelChanged_def Let_def s1_def)
  qed
  have same: "emitTopLevelChanged w Floating s = s" if "Floating = IsFloatingTopLevel (widgets s w)"
    using that by (simp add: emitTopLevelChanged_def)
  have again: "emitTopLevelChanged w Floating (emitTopLevelChanged w Floating s) =
     emitTopLevelChanged w Floating s"
    using flag by (simp add: emitTopLevelChanged_def [of w Floating "emitTopLevelChanged w Floating s"])
  have top: "emitTopLevelEventForWidget (Some w) Floating s = Some (Area_updateTitleBarVisibility a s) \<and>
      filter is_topLevelChanged (new_events s (Area_updateTitleBarVisibility a s)) = []"
    if "Floating = IsFloatingTopLevel (widgets s w)" "DockArea (widgets s w) = Some a"
    using that
    by (simp add: emitTopLevelEventForWidget_def emitTopLevelChanged_def
        Area_updateTitleBarVisibility_def new_events_def)
  from flag ev same again top show ?thesis by blast
qed

theorem emitTopLevelChanged_only_on_change_witness:
  "IsFloatingTopLevel (widgets (emitTopLevelChanged 2 True (createDefaultToolBar 2 docked)) 2) = True \<and>
   filter is_topLevelChanged (new_events (createDefaultToolBar 2 docked)
       (emitTopLevelChanged 2 True (createDefaultToolBar 2 docked))) = [Signal_topLevelChanged 2 True] \<and>
   emitTopLevelChanged 2 False docked = docked \<and>
   emitTopLevelEventForWidget (Some 2) False docked = Some (Area_updateTitleBarVisibility 3 docked)"
proof -
  have a: "True \<noteq> IsFloatingTopLevel (widgets (createDefaultToolBar 2 docked) 2)"
    by (simp add: createDefaultToolBar_def setupToolBar_def docked_def fresh_def
        CDockWidget_new_def ToolBar_setIconSize_def setDockArea_def Action_setChecked_def
        isClosed_def Let_def)
  have b: "False = IsFloatingTopLevel (widgets docked 2) \<and> DockArea (widgets docked 2) = Some 3"
    by (simp add: docked_def fresh_def CDockWidget_new_def setDockArea_def Action_setChecked_def
        isClosed_def Let_def)
  show ?thesis
    using a b emitTopLevelChanged_only_on_change [of True "createDefaultToolBar 2 docked" 2 3]
      emitTopLevelChanged_only_on_change [of False docked 2 3]
    by simp
qed

end
